theory Spec2Isabelle
  imports Main "HOL-Library.Char_ord" "HOL-Library.List_Lexorder"
begin

section \<open>Python values used by the reminder scheduler\<close>

text \<open>
  Exceptions are values. Only the classes the source distinguishes are named:
  \<open>ValueError\<close> (caught in several places), \<open>OverflowError\<close> (raised by date and
  duration arithmetic, caught nowhere by name), \<open>TypeError\<close>, and one constructor for every
  other subclass of \<open>Exception\<close>.
\<close>

datatype py_exception = ValueError | OverflowError | TypeError | OtherException

text \<open>
  Strings are lists of 8-bit characters. \<open>str.lower\<close> and \<open>str.upper\<close> are modelled on
  the ASCII letters, which is all the patterns and keywords of the source can observe in such
  a string; the digits \<open>\d\<close> matches are the ten ASCII digits.
\<close>

definition ascii_uppercase :: string where
  "ascii_uppercase = ''ABCDEFGHIJKLMNOPQRSTUVWXYZ''"

definition ascii_lowercase :: string where
  "ascii_lowercase = ''abcdefghijklmnopqrstuvwxyz''"

definition digits :: string where
  "digits = ''0123456789''"

definition lower_char :: "char \<Rightarrow> char" where
  "lower_char c =
     (case map_of (zip ascii_uppercase ascii_lowercase) c of None \<Rightarrow> c | Some l \<Rightarrow> l)"

definition upper_char :: "char \<Rightarrow> char" where
  "upper_char c =
     (case map_of (zip ascii_lowercase ascii_uppercase) c of None \<Rightarrow> c | Some u \<Rightarrow> u)"

definition str_lower :: "string \<Rightarrow> string" where
  "str_lower s = map lower_char s"

definition str_upper :: "string \<Rightarrow> string" where
  "str_upper s = map upper_char s"

definition is_digit :: "char \<Rightarrow> bool" where
  "is_digit c = (c \<in> set digits)"

text \<open>\<open>int(param)\<close> on a string of decimal digits, as an unbounded integer. (An
  interpreter that limits the length of such a string raises \<open>ValueError\<close> beyond the
  limit, where this model goes on to the \<open>OverflowError\<close> of \<open>timedelta\<close>.)\<close>

definition digit_value :: "char \<Rightarrow> int" where
  "digit_value c = int (length (takeWhile (\<lambda>d. d \<noteq> c) digits))"

definition py_int :: "string \<Rightarrow> int" where
  "py_int ds = foldl (\<lambda>acc c. 10 * acc + digit_value c) 0 ds"

subsection \<open>datetime and timedelta\<close>

text \<open>
  A naive \<open>datetime.datetime\<close> is the number of microseconds since 0001-01-01 00:00:00,
  the first instant Python represents; the last one is 9999-12-31 23:59:59.999999. A
  \<open>timedelta\<close> is a number of microseconds. Arithmetic that leaves the range raises
  \<open>OverflowError\<close>, as does a \<open>timedelta\<close> of more than 999999999 days. Every instant
  is a local time without time zone, as the schemas document their fields, so two of them
  always compare.
\<close>

type_synonym datetime = int
type_synonym timedelta = int

definition us_per_second :: int where "us_per_second = 1000000"
definition us_per_day :: int where "us_per_day = 86400 * 1000000"

definition days_before_year :: "int \<Rightarrow> int" where
  "days_before_year year = (let y = year - 1 in y * 365 + y div 4 - y div 100 + y div 400)"

definition is_leap :: "int \<Rightarrow> bool" where
  "is_leap year = (year mod 4 = 0 \<and> (year mod 100 \<noteq> 0 \<or> year mod 400 = 0))"

definition days_before_month_tab :: "int list" where
  "days_before_month_tab = [0, 0, 31, 59, 90, 120, 151, 181, 212, 243, 273, 304, 334]"

definition days_in_month_tab :: "int list" where
  "days_in_month_tab = [0, 31, 28, 31, 30, 31, 30, 31, 31, 30, 31, 30, 31]"

definition days_before_month :: "int \<Rightarrow> int \<Rightarrow> int" where
  "days_before_month year month =
     days_before_month_tab ! nat month + (if month > 2 \<and> is_leap year then 1 else 0)"

definition ymd2ord :: "int \<Rightarrow> int \<Rightarrow> int \<Rightarrow> int" where
  "ymd2ord year month day = days_before_year year + days_before_month year month + day"

text \<open>The proleptic Gregorian ordinal of a day back to (year, month, day).\<close>

definition ord2ymd :: "int \<Rightarrow> int \<times> int \<times> int" where
  "ord2ymd n0 =
     (let n = n0 - 1;
          n400 = n div 146097; n = n mod 146097;
          n100 = n div 36524; n = n mod 36524;
          n4 = n div 1461; n = n mod 1461;
          n1 = n div 365; n = n mod 365;
          year = n400 * 400 + 1 + n100 * 100 + n4 * 4 + n1
      in if n1 = 4 \<or> n100 = 4 then (year - 1, 12, 31)
         else
          (let leapyear = (n1 = 3 \<and> (n4 \<noteq> 24 \<or> n100 = 3));
               month = (n + 50) div 32;
               preceding = days_before_month_tab ! nat month
                           + (if month > 2 \<and> leapyear then 1 else 0)
           in if preceding > n
              then (let month' = month - 1;
                        preceding' = preceding
                          - (days_in_month_tab ! nat month'
                             + (if month' = 2 \<and> leapyear then 1 else 0))
                    in (year, month', n - preceding' + 1))
              else (year, month, n - preceding + 1)))"

definition mk_datetime :: "int \<Rightarrow> int \<Rightarrow> int \<Rightarrow> int \<Rightarrow> int \<Rightarrow> int \<Rightarrow> datetime" where
  "mk_datetime y m d hh mm ss =
     (ymd2ord y m d - 1) * us_per_day + ((hh * 60 + mm) * 60 + ss) * us_per_second"

definition datetime_max :: datetime where
  "datetime_max = ymd2ord 9999 12 31 * us_per_day - 1"

definition toordinal :: "datetime \<Rightarrow> int" where
  "toordinal t = t div us_per_day + 1"

definition dt_year :: "datetime \<Rightarrow> int" where
  "dt_year t = fst (ord2ymd (toordinal t))"

definition dt_month :: "datetime \<Rightarrow> int" where
  "dt_month t = fst (snd (ord2ymd (toordinal t)))"

definition dt_day :: "datetime \<Rightarrow> int" where
  "dt_day t = snd (snd (ord2ymd (toordinal t)))"

definition isoweekday :: "datetime \<Rightarrow> int" where
  "isoweekday t = (let r = toordinal t mod 7 in if r = 0 then 7 else r)"

definition digit_char :: "int \<Rightarrow> char" where
  "digit_char n = digits ! nat n"

definition pad2 :: "int \<Rightarrow> string" where
  "pad2 n = [digit_char (n div 10 mod 10), digit_char (n mod 10)]"

definition pad4 :: "int \<Rightarrow> string" where
  "pad4 n = pad2 (n div 100) @ pad2 (n mod 100)"

text \<open>\<open>next_run_local.strftime("%Y-%m-%d")\<close>\<close>

definition strftime_ymd :: "datetime \<Rightarrow> string" where
  "strftime_ymd t = pad4 (dt_year t) @ ''-'' @ pad2 (dt_month t) @ ''-'' @ pad2 (dt_day t)"

definition datetime_add :: "datetime \<Rightarrow> timedelta \<Rightarrow> py_exception + datetime" where
  "datetime_add t d =
     (if 0 \<le> t + d \<and> t + d \<le> datetime_max then Inr (t + d) else Inl OverflowError)"

definition datetime_sub :: "datetime \<Rightarrow> timedelta \<Rightarrow> py_exception + datetime" where
  "datetime_sub t d = datetime_add t (- d)"

text \<open>\<open>datetime.timedelta(days=.., hours=.., minutes=.., seconds=..)\<close> with absent
  keywords given as 0.\<close>

definition mk_timedelta :: "int \<Rightarrow> int \<Rightarrow> int \<Rightarrow> int \<Rightarrow> py_exception + timedelta" where
  "mk_timedelta days hours minutes seconds =
     (let total = (((days * 24 + hours) * 60 + minutes) * 60 + seconds) * us_per_second
      in if abs (total div us_per_day) > 999999999 then Inl OverflowError else Inr total)"

section \<open>app/models.py\<close>

datatype TaskStatusEnum = PENDING | PENDING_CALCULATION | RUNNING | COMPLETED | FAILED

record HolidayDateDB =
  hd_date :: string
  hd_year :: int
  hd_month :: int
  hd_day :: int
  week_day :: int
  day_type :: "int option"

definition is_workday :: "HolidayDateDB \<Rightarrow> bool" where
  "is_workday h = (case day_type h of None \<Rightarrow> False | Some t \<Rightarrow> t = 0)"

definition is_holiday :: "HolidayDateDB \<Rightarrow> bool" where
  "is_holiday h = (case day_type h of None \<Rightarrow> False | Some t \<Rightarrow> t = 1 \<or> t = 2)"

definition is_legal_holiday :: "HolidayDateDB \<Rightarrow> bool" where
  "is_legal_holiday h = (case day_type h of None \<Rightarrow> False | Some t \<Rightarrow> t = 2)"

definition is_weekend :: "HolidayDateDB \<Rightarrow> bool" where
  "is_weekend h =
     (case day_type h of None \<Rightarrow> False
      | Some t \<Rightarrow> (week_day h = 6 \<or> week_day h = 7) \<and> t = 1)"

section \<open>app/schemas.py: the scheduling part of a task's configuration\<close>

record CronConfig =
  cron_expression :: string
  start_time :: "datetime option"
  end_time :: "datetime option"
  limit_days :: "string list option"
  is_lunar :: bool
  lunar_month :: "int option"
  lunar_day :: "int option"

record CountdownConfig =
  countdown_duration :: string

record OneTimeSpecificConfig =
  trigger_at :: datetime

record WebhookChannelConfig =
  url :: string
  http_method :: string

record EmailChannelConfig =
  subject :: string
  recipient_email :: string

text \<open>\<open>TaskInfoCreate\<close> is \<open>TaskInfoBase\<close>; \<open>TaskInfo\<close> adds the creation time.\<close>

record TaskInfoCreate =
  task_name :: string
  description :: "string option"
  triggering_user_id :: "string option"
  target_chat_id :: "string option"
  mention_user_nickname :: "string option"
  webhook_channel :: "WebhookChannelConfig option"
  email_channel :: "EmailChannelConfig option"
  reminder_content :: string
  is_dify_generated :: bool
  is_recurring :: bool
  cron_config :: "CronConfig option"
  countdown_config :: "CountdownConfig option"
  one_time_specific_config :: "OneTimeSpecificConfig option"

record TaskInfo = TaskInfoCreate +
  task_creation_time :: datetime

text \<open>
  A row of \<open>reminder_tasks\<close> (class \<open>ReminderTaskDB\<close> of app/models.py, placed here
  because it holds a \<open>TaskInfo\<close>). The JSON column \<open>task_info\<close> is kept as the result of
  \<open>schemas.TaskInfo(**task.task_info)\<close>: \<open>None\<close> when that validation raises.
\<close>

record ReminderTaskDB =
  task_id :: string
  task_info :: "TaskInfo option"
  db_task_name :: string
  created_at :: datetime
  status :: TaskStatusEnum
  next_trigger_time :: "datetime option"
  db_is_recurring :: bool

section \<open>app/utils/date\_calculator.py: parse\_countdown\_duration\<close>

text \<open>
  The pattern is \<open>^((\d+)d)?((\d+)h)?((\d+)m)?((\d+)s)?$\<close>. Each optional group is a
  maximal run of digits followed by its unit letter; since a run of digits can only be
  followed by one character, a group that can match at its position must match there, and
  the backtracking matcher is deterministic. \<open>$\<close> accepts the end of the string and also
  the position before one final newline.
\<close>

definition match_unit :: "char \<Rightarrow> string \<Rightarrow> string option \<times> string" where
  "match_unit u s =
     (let ds = takeWhile is_digit s; rest = dropWhile is_digit s
      in case rest of
           [] \<Rightarrow> (None, s)
         | c # rest' \<Rightarrow> if ds \<noteq> [] \<and> c = u then (Some ds, rest') else (None, s))"

definition countdown_match ::
  "string \<Rightarrow> (string option \<times> string option \<times> string option \<times> string option) option" where
  "countdown_match s =
     (let (days, s1) = match_unit (CHR ''d'') s;
          (hours, s2) = match_unit (CHR ''h'') s1;
          (minutes, s3) = match_unit (CHR ''m'') s2;
          (seconds, s4) = match_unit (CHR ''s'') s3
      in if s4 = [] \<or> s4 = [CHR 0x0A] then Some (days, hours, minutes, seconds) else None)"

definition time_param :: "string option \<Rightarrow> int" where
  "time_param p = (case p of None \<Rightarrow> 0 | Some ds \<Rightarrow> py_int ds)"

definition parse_countdown_duration :: "string \<Rightarrow> py_exception + timedelta" where
  "parse_countdown_duration duration_str =
     (case countdown_match (str_lower duration_str) of
        None \<Rightarrow> Inl ValueError
      | Some (days, hours, minutes, seconds) \<Rightarrow>
          if days = None \<and> hours = None \<and> minutes = None \<and> seconds = None
          then Inl ValueError
          else mk_timedelta (time_param days) (time_param hours)
                            (time_param minutes) (time_param seconds))"

section \<open>The libraries the calculator calls\<close>

text \<open>
  \<open>croniter\<close> and \<open>lunardate\<close> are third-party libraries; the calculator is modelled
  over any behaviour of theirs. \<open>croniter_init expr base\<close> is the constructor
  \<open>croniter(expr, base)\<close>: \<open>None\<close> when it raises (its errors are subclasses of
  \<open>ValueError\<close>), otherwise the iterator's state. \<open>get_next\<close> is
  \<open>iter_cron.get_next(datetime.datetime)\<close>: \<open>None\<close> when it raises, otherwise the
  candidate and the iterator's new state. \<open>fromSolarDate\<close> is
  \<open>LunarDate.fromSolarDate(year, month, day)\<close>.
\<close>

record LunarDate =
  ld_year :: int
  ld_month :: int
  ld_day :: int
  isLeapMonth :: bool

record 'it libraries =
  croniter_init :: "string \<Rightarrow> datetime \<Rightarrow> 'it option"
  get_next :: "'it \<Rightarrow> (datetime \<times> 'it) option"
  fromSolarDate :: "int \<Rightarrow> int \<Rightarrow> int \<Rightarrow> py_exception + LunarDate"

section \<open>app/utils/date\_calculator.py: get\_next\_cron\_run\_time\<close>

text \<open>What one pass through the body of the \<open>for attempt in range(max_attempts)\<close> loop
  does after a candidate was obtained: it returns from the function, or it continues with the
  next attempt.\<close>

datatype step = Return "datetime option \<times> TaskStatusEnum" | Continue

text \<open>\<open>bool(cron_config.limit_days)\<close>: \<open>None\<close> and the empty list are false.\<close>

definition needs_calendar_data_for_limit_days :: "CronConfig \<Rightarrow> bool" where
  "needs_calendar_data_for_limit_days cfg =
     (case limit_days cfg of None \<Rightarrow> False | Some ls \<Rightarrow> ls \<noteq> [])"

text \<open>Lines 93 to 105: \<open>Inl\<close> is the early return with PENDING\_CALCULATION, \<open>Inr\<close> the
  value of \<open>current_day_holiday_info\<close> afterwards.\<close>

definition calendar_lookup ::
  "CronConfig \<Rightarrow> (int \<Rightarrow> HolidayDateDB list) \<Rightarrow> datetime \<Rightarrow> step + HolidayDateDB option" where
  "calendar_lookup cfg holiday_dates_getter next_run_local =
     (if needs_calendar_data_for_limit_days cfg
      then (let year_data_local = holiday_dates_getter (dt_year next_run_local)
            in if year_data_local = []
               then Inl (Return (Some next_run_local, PENDING_CALCULATION))
               else (case find (\<lambda>day_obj. hd_date day_obj = strftime_ymd next_run_local)
                                year_data_local of
                       None \<Rightarrow> Inl (Return (Some next_run_local, PENDING_CALCULATION))
                     | Some day_obj \<Rightarrow> Inr (Some day_obj)))
      else Inr None)"

text \<open>Lines 108 to 135: \<open>None\<close> when the lunar test lets the candidate through.\<close>

definition lunar_check :: "'it libraries \<Rightarrow> CronConfig \<Rightarrow> datetime \<Rightarrow> step option" where
  "lunar_check lib cfg next_run_local =
     (if is_lunar cfg
      then (case (lunar_month cfg, lunar_day cfg) of
              (Some target_lunar_month, Some target_lunar_day) \<Rightarrow>
                (case fromSolarDate lib (dt_year next_run_local) (dt_month next_run_local)
                                        (dt_day next_run_local) of
                   Inr lunar_date_of_next_run \<Rightarrow>
                     if \<not> (ld_month lunar_date_of_next_run = target_lunar_month
                           \<and> ld_day lunar_date_of_next_run = target_lunar_day)
                     then Some Continue else None
                 | Inl ValueError \<Rightarrow> Some (Return (None, FAILED))
                 | Inl _ \<Rightarrow> Some Continue)
            | _ \<Rightarrow> Some (Return (None, FAILED)))
      else None)"

text \<open>Lines 143 to 148: the loop over \<open>cron_config.limit_days\<close>, left at the first match.\<close>

fun day_matched_limit :: "string list \<Rightarrow> HolidayDateDB \<Rightarrow> datetime \<Rightarrow> bool" where
  "day_matched_limit [] current_day_holiday_info next_run_local = False"
| "day_matched_limit (limit_type_str # rest) current_day_holiday_info next_run_local =
     (let limit_type = str_upper limit_type_str
      in if limit_type = ''WORKDAY'' \<and> is_workday current_day_holiday_info then True
         else if limit_type = ''HOLIDAY'' \<and> is_holiday current_day_holiday_info then True
         else if limit_type = ''WEEKEND'' \<and> is_weekend current_day_holiday_info then True
         else if limit_type = ''WEEKDAY_ONLY''
                 \<and> 1 \<le> isoweekday next_run_local \<and> isoweekday next_run_local \<le> 5 then True
         else day_matched_limit rest current_day_holiday_info next_run_local)"

text \<open>Lines 137 to 151.\<close>

definition limit_check :: "CronConfig \<Rightarrow> HolidayDateDB option \<Rightarrow> datetime \<Rightarrow> step option" where
  "limit_check cfg current_day_holiday_info next_run_local =
     (case limit_days cfg of
        None \<Rightarrow> None
      | Some ls \<Rightarrow>
          if ls = [] then None
          else (case current_day_holiday_info of
                  None \<Rightarrow> Some (Return (Some next_run_local, PENDING_CALCULATION))
                | Some info \<Rightarrow>
                    if \<not> day_matched_limit ls info next_run_local then Some Continue else None))"

text \<open>Lines 83 to 153, the body of the loop for the candidate \<open>next_run_local\<close>.\<close>

definition examine_candidate ::
  "'it libraries \<Rightarrow> CronConfig \<Rightarrow> (int \<Rightarrow> HolidayDateDB list) \<Rightarrow> datetime \<Rightarrow> step" where
  "examine_candidate lib cfg holiday_dates_getter next_run_local =
     (if (case end_time cfg of None \<Rightarrow> False | Some end_dt_local \<Rightarrow> next_run_local > end_dt_local)
      then Return (None, COMPLETED)
      else if (case start_time cfg of None \<Rightarrow> False
               | Some start_dt_local \<Rightarrow> next_run_local < start_dt_local)
      then Continue
      else (case calendar_lookup cfg holiday_dates_getter next_run_local of
              Inl r \<Rightarrow> r
            | Inr current_day_holiday_info \<Rightarrow>
                (case lunar_check lib cfg next_run_local of
                   Some r \<Rightarrow> r
                 | None \<Rightarrow>
                     (case limit_check cfg current_day_holiday_info next_run_local of
                        Some r \<Rightarrow> r
                      | None \<Rightarrow> Return (Some next_run_local, PENDING)))))"

text \<open>The loop itself, by recursion on the attempts that remain; line 156 when none does.\<close>

fun cron_loop ::
  "'it libraries \<Rightarrow> CronConfig \<Rightarrow> (int \<Rightarrow> HolidayDateDB list) \<Rightarrow> nat \<Rightarrow> 'it
   \<Rightarrow> datetime option \<times> TaskStatusEnum" where
  "cron_loop lib cfg holiday_dates_getter 0 iter_cron = (None, FAILED)"
| "cron_loop lib cfg holiday_dates_getter (Suc attempts) iter_cron =
     (case get_next lib iter_cron of
        None \<Rightarrow> (None, FAILED)
      | Some (next_run_local, iter_cron') \<Rightarrow>
          (case examine_candidate lib cfg holiday_dates_getter next_run_local of
             Return r \<Rightarrow> r
           | Continue \<Rightarrow> cron_loop lib cfg holiday_dates_getter attempts iter_cron'))"

definition default_max_attempts :: nat where
  "default_max_attempts = 366 * 2"

text \<open>Lines 62 to 64.\<close>

definition clamp_base :: "CronConfig \<Rightarrow> datetime \<Rightarrow> py_exception + datetime" where
  "clamp_base cfg base_local_time =
     (case start_time cfg of
        None \<Rightarrow> Inr base_local_time
      | Some start_dt_local \<Rightarrow>
          if base_local_time < start_dt_local then datetime_sub start_dt_local us_per_second
          else Inr base_local_time)"

definition get_next_cron_run_time ::
  "'it libraries \<Rightarrow> CronConfig \<Rightarrow> datetime \<Rightarrow> (int \<Rightarrow> HolidayDateDB list) \<Rightarrow> nat
   \<Rightarrow> py_exception + (datetime option \<times> TaskStatusEnum)" where
  "get_next_cron_run_time lib cfg base_local_time holiday_dates_getter max_attempts =
     (case clamp_base cfg base_local_time of
        Inl e \<Rightarrow> Inl e
      | Inr base' \<Rightarrow>
          (case croniter_init lib (cron_expression cfg) base' of
             None \<Rightarrow> Inr (None, FAILED)
           | Some iter_cron \<Rightarrow>
               Inr (cron_loop lib cfg holiday_dates_getter max_attempts iter_cron)))"

section \<open>app/utils/date\_calculator.py: calculate\_initial\_trigger\_time\<close>

text \<open>\<open>info\<close> is the parameter \<open>task_info\<close>, and \<open>current_local_time\<close> the value
  \<open>datetime.datetime.now()\<close> returned.\<close>

definition calculate_initial_trigger_time ::
  "'it libraries \<Rightarrow> 'a TaskInfoCreate_scheme \<Rightarrow> (int \<Rightarrow> HolidayDateDB list) \<Rightarrow> datetime
   \<Rightarrow> py_exception + (datetime option \<times> TaskStatusEnum)" where
  "calculate_initial_trigger_time lib info holiday_dates_getter current_local_time =
     (if is_recurring info
      then (case cron_config info of
              None \<Rightarrow> Inl ValueError
            | Some cfg \<Rightarrow>
                get_next_cron_run_time lib cfg current_local_time holiday_dates_getter
                  default_max_attempts)
      else (case one_time_specific_config info of
              Some ots \<Rightarrow>
                if trigger_at ots \<le> current_local_time
                then (case datetime_add current_local_time us_per_second of
                        Inl e \<Rightarrow> Inl e
                      | Inr t \<Rightarrow> Inr (Some t, PENDING))
                else Inr (Some (trigger_at ots), PENDING)
            | None \<Rightarrow>
                (case countdown_config info of
                   Some cd \<Rightarrow>
                     (case parse_countdown_duration (countdown_duration cd) of
                        Inl ValueError \<Rightarrow> Inr (None, FAILED)
                      | Inl e \<Rightarrow> Inl e
                      | Inr delta \<Rightarrow>
                          (case datetime_add current_local_time delta of
                             Inl e \<Rightarrow> Inl e
                           | Inr t \<Rightarrow> Inr (Some t, PENDING)))
                 | None \<Rightarrow> Inl ValueError)))"

section \<open>app/services/task\_scheduler.py: the live timers\<close>

text \<open>
  The job store of the started scheduler, in which timers are live, is a list of jobs with
  pairwise different ids. \<open>add_job\<close> with
  an id already present raises \<open>ConflictingIdError\<close> unless \<open>replace_existing\<close> is set,
  in which case the stored job is replaced; \<open>remove_job\<close> raises \<open>JobLookupError\<close> for
  an unknown id. Both exceptions are \<open>OtherException\<close> here. Every job of this program calls
  \<open>execute_task_by_id\<close> with its own id, so a job is its id, run date, name and grace time.
\<close>

record job =
  job_id :: string
  run_date :: datetime
  job_name :: string
  misfire_grace_time :: int

definition get_job :: "job list \<Rightarrow> string \<Rightarrow> job option" where
  "get_job jobs i = find (\<lambda>j. job_id j = i) jobs"

definition add_job :: "job list \<Rightarrow> job \<Rightarrow> bool \<Rightarrow> py_exception + job list" where
  "add_job jobs j replace_existing =
     (case get_job jobs (job_id j) of
        None \<Rightarrow> Inr (jobs @ [j])
      | Some _ \<Rightarrow>
          if replace_existing
          then Inr (map (\<lambda>j'. if job_id j' = job_id j then j else j') jobs)
          else Inl OtherException)"

definition remove_job :: "job list \<Rightarrow> string \<Rightarrow> py_exception + job list" where
  "remove_job jobs i =
     (case get_job jobs i of
        None \<Rightarrow> Inl OtherException
      | Some _ \<Rightarrow> Inr (filter (\<lambda>j. job_id j \<noteq> i) jobs))"

definition add_or_update_job_in_scheduler :: "job list \<Rightarrow> ReminderTaskDB \<Rightarrow> job list" where
  "add_or_update_job_in_scheduler jobs task =
     (case next_trigger_time task of
        None \<Rightarrow> jobs
      | Some trigger_local_time \<Rightarrow>
          (case add_job jobs
                  \<lparr>job_id = task_id task, run_date = trigger_local_time,
                   job_name = db_task_name task,
                   misfire_grace_time = (if db_is_recurring task then 3600 else 600)\<rparr>
                  True of
             Inl e \<Rightarrow> jobs
           | Inr jobs' \<Rightarrow> jobs'))"

definition remove_job_from_scheduler :: "job list \<Rightarrow> string \<Rightarrow> job list" where
  "remove_job_from_scheduler jobs i =
     (case get_job jobs i of
        None \<Rightarrow> jobs
      | Some _ \<Rightarrow> (case remove_job jobs i of Inl e \<Rightarrow> jobs | Inr jobs' \<Rightarrow> jobs'))"

section \<open>app/services/task\_executor.py: execute\_task\_by\_id\<close>

text \<open>
  The texts the executor builds with f-strings around fixed non-ASCII wording are kept
  symbolic: a message is the plain reminder text or one of the wrappers the source applies.
\<close>

datatype message =
    Plain string
  | Dify_generation_failed string string
  | Dify_not_configured string
  | From_group_nickname string string message
  | From_group_user string string message

text \<open>A call of \<open>send_webhook_notification\<close> with its arguments (config, base content,
  final recipient, triggering user, mention nickname, at-target, task name, description),
  or of \<open>send_email_notification\<close>.\<close>

datatype notification =
    Webhook_call WebhookChannelConfig message string "string option" "string option"
      "string option" string "string option"
  | Email_call EmailChannelConfig message

text \<open>
  What one run of the callback reads from outside: the settings, the answer of the Dify
  service, what the awaited send call returns, and the clock at line 119.
\<close>

record exec_env =
  dify_configured :: bool
  dify_answer :: "string option"
  mail_configured :: bool
  send_result :: bool
  base_for_next_calc_local :: datetime

text \<open>
  The state the callback works on: the two tables, the scheduler's jobs, and two logs of
  its effects, the rows as each \<open>db.commit()\<close> wrote them and the send calls made.
\<close>

record system_state =
  reminder_tasks :: "ReminderTaskDB list"
  holiday_dates :: "HolidayDateDB list"
  scheduler :: "job list"
  commit_log :: "ReminderTaskDB list"
  sent :: "notification list"

definition get_task :: "system_state \<Rightarrow> string \<Rightarrow> ReminderTaskDB option" where
  "get_task s i = find (\<lambda>r. task_id r = i) (reminder_tasks s)"

definition get_holiday_dates_for_year :: "system_state \<Rightarrow> int \<Rightarrow> HolidayDateDB list" where
  "get_holiday_dates_for_year s year =
     sort_key hd_date (filter (\<lambda>h. hd_year h = year) (holiday_dates s))"

definition commit :: "system_state \<Rightarrow> ReminderTaskDB \<Rightarrow> system_state" where
  "commit s task =
     s\<lparr>reminder_tasks := map (\<lambda>r. if task_id r = task_id task then task else r) (reminder_tasks s),
       commit_log := commit_log s @ [task]\<rparr>"

definition disarm :: "system_state \<Rightarrow> string \<Rightarrow> system_state" where
  "disarm s i = s\<lparr>scheduler := remove_job_from_scheduler (scheduler s) i\<rparr>"

text \<open>Truth value of an \<open>Optional[str]\<close>.\<close>

definition truthy :: "string option \<Rightarrow> bool" where
  "truthy x = (case x of None \<Rightarrow> False | Some v \<Rightarrow> v \<noteq> [])"

fun str_contains :: "string \<Rightarrow> string \<Rightarrow> bool" where
  "str_contains sub [] = (sub = [])"
| "str_contains sub (c # cs) = (take (length sub) (c # cs) = sub \<or> str_contains sub cs)"

text \<open>Lines 149 to 155, reached from any exception raised once \<open>task\<close> is loaded.\<close>

definition on_exception :: "system_state \<Rightarrow> ReminderTaskDB \<Rightarrow> string \<Rightarrow> system_state" where
  "on_exception s task i = disarm (commit s (task\<lparr>status := FAILED\<rparr>)) i"

text \<open>Lines 35 to 52; \<open>generated_content[:50]\<close> raises \<open>TypeError\<close> on \<open>None\<close>.\<close>

definition base_reminder_content :: "exec_env \<Rightarrow> TaskInfo \<Rightarrow> py_exception + message" where
  "base_reminder_content env tim =
     (if is_dify_generated tim
      then (if dify_configured env
            then (case dify_answer env of
                    None \<Rightarrow> Inl TypeError
                  | Some generated_content \<Rightarrow>
                      if generated_content \<noteq> [] \<and> take 4 generated_content \<noteq> ''Dify''
                      then Inr (Plain generated_content)
                      else Inr (Dify_generation_failed (take 50 generated_content)
                                  (reminder_content tim)))
            else Inr (Dify_not_configured (reminder_content tim)))
      else Inr (Plain (reminder_content tim)))"

text \<open>Lines 115 to 145, after the send call returned \<open>notification_sent_successfully\<close>.\<close>

definition after_notification ::
  "'it libraries \<Rightarrow> exec_env \<Rightarrow> system_state \<Rightarrow> ReminderTaskDB \<Rightarrow> TaskInfo \<Rightarrow> bool
   \<Rightarrow> system_state" where
  "after_notification lib env s0 task0 tim notification_sent_successfully =
     (let task1 = task0\<lparr>status := (if notification_sent_successfully then COMPLETED else FAILED)\<rparr>;
          s1 = commit s0 task1
      in case (if db_is_recurring task1 then cron_config tim else None) of
           Some cfg \<Rightarrow>
             (case get_next_cron_run_time lib cfg (base_for_next_calc_local env)
                     (get_holiday_dates_for_year s1) default_max_attempts of
                Inl e \<Rightarrow> on_exception s1 task1 (task_id task1)
              | Inr (next_trigger_local, next_status) \<Rightarrow>
                  (let task2 = task1\<lparr>next_trigger_time := next_trigger_local,
                                     status := next_status\<rparr>;
                       s2 = commit s1 task2
                   in if status task2 = PENDING \<and> next_trigger_time task2 \<noteq> None
                      then s2\<lparr>scheduler := add_or_update_job_in_scheduler (scheduler s2) task2\<rparr>
                      else if status task2 = PENDING_CALCULATION \<and> next_trigger_time task2 \<noteq> None
                      then disarm s2 (task_id task2)
                      else disarm s2 (task_id task2)))
         | None \<Rightarrow>
             (let task2 = task1\<lparr>next_trigger_time := None\<rparr>
              in disarm (commit s1 task2) (task_id task2)))"

text \<open>Lines 109 to 113 and, with the same effect, 67 to 70.\<close>

definition fail_without_send :: "system_state \<Rightarrow> ReminderTaskDB \<Rightarrow> system_state" where
  "fail_without_send s task =
     (let task1 = task\<lparr>status := FAILED\<rparr>; s1 = commit s task1
      in if \<not> db_is_recurring task1 then disarm s1 (task_id task1) else s1)"

text \<open>Line 76: \<open>task_target_chat_id and "@chatroom" in task_target_chat_id\<close>.\<close>

definition is_group_chat :: "string option \<Rightarrow> bool" where
  "is_group_chat chat = (case chat of None \<Rightarrow> False | Some c \<Rightarrow> c \<noteq> [] \<and> str_contains ''@chatroom'' c)"

text \<open>Lines 95 to 99; in a group context the chat id is present.\<close>

definition email_content ::
  "string option \<Rightarrow> string option \<Rightarrow> string option \<Rightarrow> message \<Rightarrow> message" where
  "email_content chat nickname user content =
     (case chat of
        None \<Rightarrow> content
      | Some c \<Rightarrow>
          if is_group_chat chat \<and> truthy nickname
          then (case nickname of None \<Rightarrow> content | Some n \<Rightarrow> From_group_nickname c n content)
          else if is_group_chat chat \<and> truthy user
          then (case user of None \<Rightarrow> content | Some u \<Rightarrow> From_group_user c u content)
          else content)"

text \<open>Lines 54 to 113: the recipient, the channel and the send call.\<close>

definition notify ::
  "'it libraries \<Rightarrow> exec_env \<Rightarrow> system_state \<Rightarrow> ReminderTaskDB \<Rightarrow> TaskInfo \<Rightarrow> message
   \<Rightarrow> system_state" where
  "notify lib env s task tim content =
     (let task_triggering_user_id = triggering_user_id tim;
          task_target_chat_id = target_chat_id tim;
          task_mention_nickname = mention_user_nickname tim;
          final_recipient_id =
            (if truthy task_target_chat_id then task_target_chat_id else task_triggering_user_id)
      in case final_recipient_id of
           None \<Rightarrow> fail_without_send s task
         | Some recipient \<Rightarrow>
             if recipient = [] then fail_without_send s task
             else
              (let is_group_message_context = is_group_chat task_target_chat_id;
                   at_user_id_for_payload =
                     (if is_group_message_context then task_triggering_user_id else None)
               in case webhook_channel tim of
                    Some wh \<Rightarrow>
                      after_notification lib env
                        (s\<lparr>sent := sent s @
                            [Webhook_call wh content recipient task_triggering_user_id
                               (if is_group_message_context then task_mention_nickname else None)
                               (if is_group_message_context then at_user_id_for_payload else None)
                               (task_name tim) (description tim)]\<rparr>)
                        task tim (send_result env)
                  | None \<Rightarrow>
                      (case email_channel tim of
                         Some em \<Rightarrow>
                           if mail_configured env
                           then after_notification lib env
                                  (s\<lparr>sent := sent s @
                                      [Email_call em
                                         (email_content task_target_chat_id task_mention_nickname
                                            task_triggering_user_id content)]\<rparr>)
                                  task tim (send_result env)
                           else after_notification lib env s task tim False
                       | None \<Rightarrow> fail_without_send s task)))"

definition fireable :: "TaskStatusEnum \<Rightarrow> bool" where
  "fireable st = (st = PENDING \<or> st = RUNNING)"

definition execute_task_by_id ::
  "'it libraries \<Rightarrow> exec_env \<Rightarrow> string \<Rightarrow> system_state \<Rightarrow> system_state" where
  "execute_task_by_id lib env i s =
     (case get_task s i of
        None \<Rightarrow> disarm s i
      | Some task \<Rightarrow>
          if \<not> fireable (status task)
          then (if next_trigger_time task = None then disarm s i else s)
          else
           (let task1 = task\<lparr>status := RUNNING\<rparr>; s1 = commit s task1
            in case task_info task1 of
                 None \<Rightarrow> on_exception s1 task1 i
               | Some tim \<Rightarrow>
                   (case base_reminder_content env tim of
                      Inl e \<Rightarrow> on_exception s1 task1 i
                    | Inr content \<Rightarrow> notify lib env s1 task1 tim content)))"

text \<open>
  A timer comes due. Every task's job has a date trigger, which has no further run time:
  APScheduler hands the callback to the event loop and removes the job from its store
  before the callback starts. \<open>concurrent\<close> stands for what other requests do to the state
  between that moment and the start of the callback; the callback then runs on the state
  they leave.
\<close>

definition submit_date_job :: "system_state \<Rightarrow> string \<Rightarrow> system_state" where
  "submit_date_job s i =
     (case remove_job (scheduler s) i of
        Inl e \<Rightarrow> s
      | Inr jobs' \<Rightarrow> s\<lparr>scheduler := jobs'\<rparr>)"

definition timer_fire ::
  "'it libraries \<Rightarrow> exec_env \<Rightarrow> string \<Rightarrow> (system_state \<Rightarrow> system_state) \<Rightarrow> system_state
   \<Rightarrow> system_state" where
  "timer_fire lib env i concurrent s =
     execute_task_by_id lib env i (concurrent (submit_date_job s i))"

section \<open>Notions used to state the properties\<close>

text \<open>The results of the first \<open>n\<close> calls of \<open>get_next\<close> on an iterator, up to and
  including the first call that raises (\<open>None\<close>).\<close>

fun candidates :: "'it libraries \<Rightarrow> nat \<Rightarrow> 'it \<Rightarrow> datetime option list" where
  "candidates lib 0 iter_cron = []"
| "candidates lib (Suc n) iter_cron =
     (case get_next lib iter_cron of
        None \<Rightarrow> [None]
      | Some (c, iter_cron') \<Rightarrow> Some c # candidates lib n iter_cron')"

text \<open>
  What croniter promises about the first candidate of an iterator started at \<open>base\<close>, for a
  predicate \<open>matches expr t\<close> saying that the fields of \<open>t\<close> satisfy the expression: the
  candidate is later than \<open>base\<close>, it matches, and no instant between the two matches.
\<close>

definition croniter_contract :: "'it libraries \<Rightarrow> (string \<Rightarrow> datetime \<Rightarrow> bool) \<Rightarrow> bool" where
  "croniter_contract lib matches =
     (\<forall>expr base it c it'.
        croniter_init lib expr base = Some it \<and> get_next lib it = Some (c, it') \<longrightarrow>
          base < c \<and> matches expr c \<and> (\<forall>u. base < u \<and> u < c \<longrightarrow> \<not> matches expr u))"

text \<open>
  The day-type filters in the specification's words, on the codes of the calendar provider
  (0 workday, 1 holiday, 2 legal holiday; weekdays 1 to 7 from Monday).
\<close>

definition spec_filter_satisfied :: "string \<Rightarrow> HolidayDateDB \<Rightarrow> datetime \<Rightarrow> bool" where
  "spec_filter_satisfied f day c =
     (f = ''WORKDAY'' \<and> day_type day = Some 0
      \<or> f = ''HOLIDAY'' \<and> (day_type day = Some 1 \<or> day_type day = Some 2)
      \<or> f = ''WEEKEND'' \<and> day_type day = Some 1 \<and> week_day day \<in> {6, 7}
      \<or> f = ''WEEKDAY_ONLY'' \<and> isoweekday c \<in> {1..5})"

text \<open>The candidate passes the tests of lines 83 to 87.\<close>

definition in_window :: "CronConfig \<Rightarrow> datetime \<Rightarrow> bool" where
  "in_window cfg c =
     ((case end_time cfg of None \<Rightarrow> True | Some e \<Rightarrow> \<not> c > e)
      \<and> (case start_time cfg of None \<Rightarrow> True | Some st \<Rightarrow> \<not> c < st))"

text \<open>The store's invariant: no two jobs share an id.\<close>

definition distinct_ids :: "job list \<Rightarrow> bool" where
  "distinct_ids jobs = distinct (map job_id jobs)"

section \<open>Sample inputs\<close>

text \<open>
  A double for the two libraries. croniter is the expression \<open>0 0 * * *\<close> (every day at
  00:00): the iterator is its current instant and the next candidate is the first midnight
  after it; any other expression is rejected. lunardate is the three days around the lunar
  new year of 2025 (29 January); on any other date the double raises, which the library
  itself does not.
\<close>

definition daily_midnight :: string where
  "daily_midnight = ''0 0 * * *''"

definition daily_midnight_matches :: "string \<Rightarrow> datetime \<Rightarrow> bool" where
  "daily_midnight_matches expr t = (expr = daily_midnight \<and> t mod us_per_day = 0)"

definition sample_lib :: "datetime libraries" where
  "sample_lib =
     \<lparr>croniter_init = (\<lambda>expr base. if expr = daily_midnight then Some base else None),
      get_next = (\<lambda>cur. let t = (cur div us_per_day + 1) * us_per_day in Some (t, t)),
      fromSolarDate = (\<lambda>y m d.
        if (y, m, d) = (2025, 1, 28)
        then Inr \<lparr>ld_year = 2024, ld_month = 12, ld_day = 29, isLeapMonth = False\<rparr>
        else if (y, m, d) = (2025, 1, 29)
        then Inr \<lparr>ld_year = 2025, ld_month = 1, ld_day = 1, isLeapMonth = False\<rparr>
        else if (y, m, d) = (2025, 1, 30)
        then Inr \<lparr>ld_year = 2025, ld_month = 1, ld_day = 2, isLeapMonth = False\<rparr>
        else Inl OtherException)\<rparr>"

definition sample_cron :: CronConfig where
  "sample_cron =
     \<lparr>cron_expression = daily_midnight, start_time = None, end_time = None,
      limit_days = None, is_lunar = False, lunar_month = None, lunar_day = None\<rparr>"

definition lunar_new_year_cron :: CronConfig where
  "lunar_new_year_cron =
     sample_cron\<lparr>is_lunar := True, lunar_month := Some 1, lunar_day := Some 1\<rparr>"

definition lunar_2_30_cron :: CronConfig where
  "lunar_2_30_cron =
     sample_cron\<lparr>is_lunar := True, lunar_month := Some 2, lunar_day := Some 30\<rparr>"

definition workday_cron :: CronConfig where
  "workday_cron = sample_cron\<lparr>limit_days := Some [''WORKDAY'']\<rparr>"

definition no_calendar :: "int \<Rightarrow> HolidayDateDB list" where
  "no_calendar year = []"

text \<open>Three days of the 2025 calendar: Saturday 25 January, a day off; Sunday 26 January,
  a working day; Wednesday 29 January, a legal holiday.\<close>

definition day_2025_01_25 :: HolidayDateDB where
  "day_2025_01_25 =
     \<lparr>hd_date = ''2025-01-25'', hd_year = 2025, hd_month = 1, hd_day = 25,
      week_day = 6, day_type = Some 1\<rparr>"

definition day_2025_01_26 :: HolidayDateDB where
  "day_2025_01_26 =
     \<lparr>hd_date = ''2025-01-26'', hd_year = 2025, hd_month = 1, hd_day = 26,
      week_day = 7, day_type = Some 0\<rparr>"

definition day_2025_01_29 :: HolidayDateDB where
  "day_2025_01_29 =
     \<lparr>hd_date = ''2025-01-29'', hd_year = 2025, hd_month = 1, hd_day = 29,
      week_day = 3, day_type = Some 2\<rparr>"

definition calendar_2025 :: "int \<Rightarrow> HolidayDateDB list" where
  "calendar_2025 year =
     (if year = 2025 then [day_2025_01_25, day_2025_01_26, day_2025_01_29] else [])"

definition sample_info :: TaskInfoCreate where
  "sample_info =
     \<lparr>task_name = ''water'', description = None, triggering_user_id = Some ''wxid_1'',
      target_chat_id = None, mention_user_nickname = None,
      webhook_channel = Some \<lparr>url = ''http://localhost/hook'', http_method = ''POST''\<rparr>,
      email_channel = None, reminder_content = ''drink water'', is_dify_generated = False,
      is_recurring = False, cron_config = None, countdown_config = None,
      one_time_specific_config = None\<rparr>"

definition sample_now :: datetime where
  "sample_now = mk_datetime 2025 1 28 12 0 0"

definition friday_noon :: datetime where
  "friday_noon = mk_datetime 2025 1 24 12 0 0"

definition midnight :: "int \<Rightarrow> datetime" where
  "midnight day = mk_datetime 2025 1 day 0 0 0"

text \<open>A recurring task that rings every midnight, its row, and a state that holds it.\<close>

definition recurring_info :: TaskInfo where
  "recurring_info =
     \<lparr>task_name = ''water'', description = None, triggering_user_id = Some ''wxid_1'',
      target_chat_id = None, mention_user_nickname = None,
      webhook_channel = Some \<lparr>url = ''http://localhost/hook'', http_method = ''POST''\<rparr>,
      email_channel = None, reminder_content = ''drink water'', is_dify_generated = False,
      is_recurring = True, cron_config = Some sample_cron, countdown_config = None,
      one_time_specific_config = None, task_creation_time = friday_noon\<rparr>"

definition recurring_task :: ReminderTaskDB where
  "recurring_task =
     \<lparr>task_id = ''t1'', task_info = Some recurring_info, db_task_name = ''water'',
      created_at = friday_noon, status = PENDING, next_trigger_time = Some (midnight 28),
      db_is_recurring = True\<rparr>"

definition recurring_job :: "datetime \<Rightarrow> job" where
  "recurring_job t =
     \<lparr>job_id = ''t1'', run_date = t, job_name = ''water'', misfire_grace_time = 3600\<rparr>"

definition sample_state :: system_state where
  "sample_state =
     \<lparr>reminder_tasks = [recurring_task], holiday_dates = [], scheduler = [],
      commit_log = [], sent = []\<rparr>"

text \<open>A second task with its timer, and the state in which both tasks are armed.\<close>

definition other_task :: ReminderTaskDB where
  "other_task =
     recurring_task\<lparr>task_id := ''t2'', task_info := Some (recurring_info\<lparr>task_name := ''tea''\<rparr>),
                    db_task_name := ''tea'', next_trigger_time := Some (midnight 30)\<rparr>"

definition other_job :: job where
  "other_job =
     \<lparr>job_id = ''t2'', run_date = midnight 30, job_name = ''tea'', misfire_grace_time = 3600\<rparr>"

definition armed_state :: system_state where
  "armed_state =
     \<lparr>reminder_tasks = [recurring_task, other_task], holiday_dates = [],
      scheduler = [recurring_job (midnight 28), other_job], commit_log = [], sent = []\<rparr>"

text \<open>
  A concurrent request: \<open>update_existing_task\<close> of app/main.py for a body that sets only
  \<open>status\<close>, here to COMPLETED. The row keeps its trigger time, the new status is
  committed, and the status not being PENDING, the task's job is removed from the scheduler.
\<close>

definition mark_completed :: "string \<Rightarrow> system_state \<Rightarrow> system_state" where
  "mark_completed i s =
     (case get_task s i of
        None \<Rightarrow> s
      | Some db_task \<Rightarrow> disarm (commit s (db_task\<lparr>status := COMPLETED\<rparr>)) i)"

text \<open>A run in which the send call reports a failure at noon of 28 January.\<close>

definition failing_env :: exec_env where
  "failing_env =
     \<lparr>dify_configured = False, dify_answer = None, mail_configured = False,
      send_result = False, base_for_next_calc_local = sample_now\<rparr>"

section \<open>Evaluation rules\<close>

lemmas date_defs = mk_datetime_def ymd2ord_def days_before_year_def days_before_month_def
  days_before_month_tab_def days_in_month_tab_def is_leap_def us_per_day_def us_per_second_def
  datetime_max_def toordinal_def ord2ymd_def dt_year_def dt_month_def dt_day_def isoweekday_def
  strftime_ymd_def pad2_def pad4_def digit_char_def digits_def

lemmas string_defs = str_lower_def str_upper_def lower_char_def upper_char_def is_digit_def
  digits_def ascii_uppercase_def ascii_lowercase_def digit_value_def py_int_def

lemmas parse_defs = parse_countdown_duration_def countdown_match_def match_unit_def
  time_param_def mk_timedelta_def

lemma datetime_max_value: "datetime_max = 315537897599999999"
  by (simp add: date_defs)

lemma sample_now_value: "sample_now = 63873662400000000"
  by (simp add: sample_now_def date_defs)

lemmas sample_defs = sample_cron_def lunar_new_year_cron_def lunar_2_30_cron_def
  workday_cron_def no_calendar_def calendar_2025_def day_2025_01_25_def day_2025_01_26_def
  day_2025_01_29_def daily_midnight_matches_def

lemma midnight_values:
  "midnight 25 = 63873360000000000" "midnight 26 = 63873446400000000"
  "midnight 29 = 63873705600000000" "midnight 30 = 63873792000000000"
  "midnight 31 = 63873878400000000"
  by (simp_all add: midnight_def mk_datetime_def ymd2ord_def days_before_year_def
        days_before_month_def days_before_month_tab_def is_leap_def us_per_day_def us_per_second_def)

lemma friday_noon_value: "friday_noon = 63873316800000000"
  by (simp add: friday_noon_def mk_datetime_def ymd2ord_def days_before_year_def
        days_before_month_def days_before_month_tab_def is_leap_def us_per_day_def us_per_second_def)

lemma sample_get_next:
  "get_next sample_lib sample_now = Some (midnight 29, midnight 29)"
  "get_next sample_lib (midnight 29) = Some (midnight 30, midnight 30)"
  "get_next sample_lib (midnight 30) = Some (midnight 31, midnight 31)"
  "get_next sample_lib friday_noon = Some (midnight 25, midnight 25)"
  "get_next sample_lib (midnight 25) = Some (midnight 26, midnight 26)"
  by (simp_all add: sample_lib_def midnight_values sample_now_value friday_noon_value us_per_day_def)

lemma sample_dates:
  "dt_year (midnight 25) = 2025" "strftime_ymd (midnight 25) = ''2025-01-25''"
  "dt_year (midnight 26) = 2025" "strftime_ymd (midnight 26) = ''2025-01-26''"
  "dt_year (midnight 29) = 2025" "dt_month (midnight 29) = 1" "dt_day (midnight 29) = 29"
  "strftime_ymd (midnight 29) = ''2025-01-29''"
  "dt_year (midnight 30) = 2025" "dt_month (midnight 30) = 1" "dt_day (midnight 30) = 30"
  "strftime_ymd (midnight 30) = ''2025-01-30''"
  "isoweekday (midnight 25) = 6" "isoweekday (midnight 26) = 7" "isoweekday (midnight 29) = 3"
  by (simp_all add: midnight_values date_defs Let_def)

lemma sample_croniter_init:
  "croniter_init sample_lib daily_midnight b = Some b"
  "e \<noteq> daily_midnight \<Longrightarrow> croniter_init sample_lib e b = None"
  by (simp_all add: sample_lib_def)

lemma sample_fromSolarDate:
  "fromSolarDate sample_lib 2025 1 29
     = Inr \<lparr>ld_year = 2025, ld_month = 1, ld_day = 1, isLeapMonth = False\<rparr>"
  "fromSolarDate sample_lib 2025 1 30
     = Inr \<lparr>ld_year = 2025, ld_month = 1, ld_day = 2, isLeapMonth = False\<rparr>"
  by (simp_all add: sample_lib_def)

lemmas sample_lib_simps = sample_croniter_init(1) sample_get_next sample_fromSolarDate sample_dates

lemma cron_loop_unfold:
  "0 < n \<Longrightarrow> cron_loop lib cfg g n it =
     (case get_next lib it of
        None \<Rightarrow> (None, FAILED)
      | Some (c, it') \<Rightarrow>
          (case examine_candidate lib cfg g c of
             Return r \<Rightarrow> r
           | Continue \<Rightarrow> cron_loop lib cfg g (n - 1) it'))"
  by (cases n) (simp_all split: option.splits step.splits prod.splits)

lemmas loop_defs = examine_candidate_def calendar_lookup_def lunar_check_def limit_check_def
  needs_calendar_data_for_limit_days_def clamp_base_def get_next_cron_run_time_def

section \<open>One-shot tasks\<close>

text \<open>
  C5. A one-shot task with an absolute target: a target at or before the base instant
  (\<open>now\<close>) gives \<open>now\<close> plus one second, a later target is returned unchanged; the status
  is PENDING in both cases. \<open>now\<close> is the reading of the clock, a \<open>datetime\<close> at least a
  second before the last one Python represents.
\<close>

theorem one_shot_absolute:
  assumes "\<not> is_recurring info"
    and "one_time_specific_config info = Some ots"
    and "0 \<le> now" and "now + us_per_second \<le> datetime_max"
  shows "calculate_initial_trigger_time lib info getter now =
           Inr (Some (if trigger_at ots \<le> now then now + us_per_second else trigger_at ots),
                PENDING)"
  using assms
  by (simp add: calculate_initial_trigger_time_def datetime_add_def us_per_second_def)

theorem one_shot_absolute_witness:
  "\<not> is_recurring
       (sample_info\<lparr>one_time_specific_config := Some \<lparr>trigger_at = mk_datetime 2025 1 28 11 0 0\<rparr>\<rparr>)
   \<and> 0 \<le> sample_now \<and> sample_now + us_per_second \<le> datetime_max
   \<and> calculate_initial_trigger_time sample_lib
        (sample_info\<lparr>one_time_specific_config := Some \<lparr>trigger_at = mk_datetime 2025 1 28 11 0 0\<rparr>\<rparr>)
        no_calendar sample_now = Inr (Some (mk_datetime 2025 1 28 12 0 1), PENDING)
   \<and> calculate_initial_trigger_time sample_lib
        (sample_info\<lparr>one_time_specific_config := Some \<lparr>trigger_at = mk_datetime 2025 1 28 13 0 0\<rparr>\<rparr>)
        no_calendar sample_now = Inr (Some (mk_datetime 2025 1 28 13 0 0), PENDING)"
  using
    one_shot_absolute [of
      "sample_info\<lparr>one_time_specific_config := Some \<lparr>trigger_at = mk_datetime 2025 1 28 11 0 0\<rparr>\<rparr>"
      "\<lparr>trigger_at = mk_datetime 2025 1 28 11 0 0\<rparr>" sample_now sample_lib no_calendar]
    one_shot_absolute [of
      "sample_info\<lparr>one_time_specific_config := Some \<lparr>trigger_at = mk_datetime 2025 1 28 13 0 0\<rparr>\<rparr>"
      "\<lparr>trigger_at = mk_datetime 2025 1 28 13 0 0\<rparr>" sample_now sample_lib no_calendar]
  by (simp add: sample_info_def sample_now_def date_defs)

lemma parse_example:
  "parse_countdown_duration ''1d2h3m4s'' = Inr (us_per_day + (2 * 3600 + 3 * 60 + 4) * us_per_second)"
  by (simp add: parse_defs string_defs us_per_day_def us_per_second_def Let_def)

lemma parse_zero_days: "parse_countdown_duration ''0d'' = Inr 0"
  by (simp add: parse_defs string_defs us_per_day_def us_per_second_def Let_def)

lemma parse_empty: "parse_countdown_duration [] = Inl ValueError"
  by (simp add: parse_defs str_lower_def)

lemma unparseable_example: "countdown_match (str_lower ''soon'') = None"
  by (simp add: parse_defs string_defs Let_def)

text \<open>
  C6. The duration \<open>1d2h3m4s\<close> parses to exactly one day, two hours, three minutes and
  four seconds, and the countdown task is due at the base instant plus that duration with
  status PENDING; an empty duration, or one the pattern does not match, raises
  \<open>ValueError\<close> in the parser, which the calculator turns into no trigger and status
  FAILED; \<open>0d\<close> is a duration of zero and the task is due at the base instant itself.
  The base instant is the clock's reading, far enough from the last \<open>datetime\<close> for the
  sum to exist.
\<close>

theorem countdown_parsing:
  assumes "\<not> is_recurring info"
    and "one_time_specific_config info = None"
    and "countdown_config info = Some cd"
    and "0 \<le> now" and "now + (us_per_day + (2 * 3600 + 3 * 60 + 4) * us_per_second) \<le> datetime_max"
  shows "parse_countdown_duration ''1d2h3m4s''
           = Inr (us_per_day + (2 * 3600 + 3 * 60 + 4) * us_per_second)
     \<and> (countdown_duration cd = ''1d2h3m4s'' \<longrightarrow>
          calculate_initial_trigger_time lib info getter now
            = Inr (Some (now + (us_per_day + (2 * 3600 + 3 * 60 + 4) * us_per_second)), PENDING))
     \<and> (countdown_duration cd = [] \<or> countdown_match (str_lower (countdown_duration cd)) = None \<longrightarrow>
          parse_countdown_duration (countdown_duration cd) = Inl ValueError
          \<and> calculate_initial_trigger_time lib info getter now = Inr (None, FAILED))
     \<and> (countdown_duration cd = ''0d'' \<longrightarrow>
          parse_countdown_duration (countdown_duration cd) = Inr 0
          \<and> calculate_initial_trigger_time lib info getter now = Inr (Some now, PENDING))"
proof -
  let ?d = "us_per_day + (2 * 3600 + 3 * 60 + 4) * us_per_second"
  have pos: "0 \<le> ?d" by (simp add: us_per_day_def us_per_second_def)
  have a: "countdown_duration cd = ''1d2h3m4s'' \<longrightarrow>
          calculate_initial_trigger_time lib info getter now = Inr (Some (now + ?d), PENDING)"
    using assms pos
    by (simp add: calculate_initial_trigger_time_def parse_example datetime_add_def)
  have b: "countdown_duration cd = [] \<or> countdown_match (str_lower (countdown_duration cd)) = None \<longrightarrow>
          parse_countdown_duration (countdown_duration cd) = Inl ValueError
          \<and> calculate_initial_trigger_time lib info getter now = Inr (None, FAILED)"
  proof
    assume "countdown_duration cd = [] \<or> countdown_match (str_lower (countdown_duration cd)) = None"
    then have e: "parse_countdown_duration (countdown_duration cd) = Inl ValueError"
      using parse_empty by (auto simp: parse_countdown_duration_def)
    with assms show "parse_countdown_duration (countdown_duration cd) = Inl ValueError
          \<and> calculate_initial_trigger_time lib info getter now = Inr (None, FAILED)"
      by (simp add: calculate_initial_trigger_time_def)
  qed
  have c: "countdown_duration cd = ''0d'' \<longrightarrow>
          parse_countdown_duration (countdown_duration cd) = Inr 0
          \<and> calculate_initial_trigger_time lib info getter now = Inr (Some now, PENDING)"
    using assms pos
    by (simp add: calculate_initial_trigger_time_def parse_zero_days datetime_add_def)
  from parse_example a b c show ?thesis by blast
qed

theorem countdown_parsing_witness:
  "0 \<le> sample_now \<and> sample_now + (us_per_day + (2 * 3600 + 3 * 60 + 4) * us_per_second) \<le> datetime_max
   \<and> calculate_initial_trigger_time sample_lib
        (sample_info\<lparr>countdown_config := Some \<lparr>countdown_duration = ''1d2h3m4s''\<rparr>\<rparr>) no_calendar sample_now
       = Inr (Some (mk_datetime 2025 1 29 14 3 4), PENDING)
   \<and> calculate_initial_trigger_time sample_lib
        (sample_info\<lparr>countdown_config := Some \<lparr>countdown_duration = []\<rparr>\<rparr>) no_calendar sample_now
       = Inr (None, FAILED)
   \<and> calculate_initial_trigger_time sample_lib
        (sample_info\<lparr>countdown_config := Some \<lparr>countdown_duration = ''soon''\<rparr>\<rparr>) no_calendar sample_now
       = Inr (None, FAILED)
   \<and> calculate_initial_trigger_time sample_lib
        (sample_info\<lparr>countdown_config := Some \<lparr>countdown_duration = ''0d''\<rparr>\<rparr>) no_calendar sample_now
       = Inr (Some sample_now, PENDING)"
  using
    countdown_parsing [of "sample_info\<lparr>countdown_config := Some \<lparr>countdown_duration = ''1d2h3m4s''\<rparr>\<rparr>"
      "\<lparr>countdown_duration = ''1d2h3m4s''\<rparr>" sample_now sample_lib no_calendar]
    countdown_parsing [of "sample_info\<lparr>countdown_config := Some \<lparr>countdown_duration = []\<rparr>\<rparr>"
      "\<lparr>countdown_duration = []\<rparr>" sample_now sample_lib no_calendar]
    countdown_parsing [of "sample_info\<lparr>countdown_config := Some \<lparr>countdown_duration = ''soon''\<rparr>\<rparr>"
      "\<lparr>countdown_duration = ''soon''\<rparr>" sample_now sample_lib no_calendar]
    countdown_parsing [of "sample_info\<lparr>countdown_config := Some \<lparr>countdown_duration = ''0d''\<rparr>\<rparr>"
      "\<lparr>countdown_duration = ''0d''\<rparr>" sample_now sample_lib no_calendar]
    unparseable_example
  by (simp add: sample_info_def sample_now_value datetime_max_value us_per_day_def us_per_second_def
        mk_datetime_def ymd2ord_def days_before_year_def days_before_month_def days_before_month_tab_def is_leap_def)

section \<open>Recurring tasks\<close>

lemma examine_missing_calendar:
  assumes "in_window cfg c" and "needs_calendar_data_for_limit_days cfg"
    and "find (\<lambda>d. hd_date d = strftime_ymd c) (g (dt_year c)) = None"
  shows "examine_candidate lib cfg g c = Return (Some c, PENDING_CALCULATION)"
  using assms
  by (auto simp: examine_candidate_def in_window_def calendar_lookup_def Let_def split: option.splits)

lemma examine_no_calendar_needed:
  assumes "\<not> needs_calendar_data_for_limit_days cfg"
  shows "examine_candidate lib cfg g c \<noteq> Return (t, PENDING_CALCULATION)"
  using assms
  by (auto simp: examine_candidate_def calendar_lookup_def lunar_check_def limit_check_def
        needs_calendar_data_for_limit_days_def Let_def
      split: option.splits sum.splits py_exception.splits if_splits)

lemma cron_loop_no_calendar_needed:
  assumes "\<not> needs_calendar_data_for_limit_days cfg"
  shows "snd (cron_loop lib cfg g n it) \<noteq> PENDING_CALCULATION"
proof (induction n arbitrary: it)
  case 0
  show ?case by simp
next
  case (Suc n)
  show ?case
  proof (cases "get_next lib it")
    case None
    then show ?thesis by simp
  next
    case (Some p)
    obtain c it' where p: "p = (c, it')" by (cases p)
    show ?thesis
    proof (cases "examine_candidate lib cfg g c")
      case (Return r)
      with examine_no_calendar_needed [OF assms, of lib g c "fst r"]
      have "snd r \<noteq> PENDING_CALCULATION" by (cases r) auto
      with Return Some p show ?thesis by simp
    next
      case Continue
      with Some p Suc.IH [of it'] show ?thesis by simp
    qed
  qed
qed

lemma next_multiple_greater:
  fixes D :: int assumes "0 < D" shows "b < (b div D + 1) * D"
proof -
  have "b div D * D + b mod D = b" by (rule div_mult_mod_eq)
  moreover have "b mod D < D" using assms by simp
  ultimately have "b < b div D * D + D" by linarith
  then show ?thesis by (simp add: algebra_simps)
qed

lemma next_multiple_least:
  fixes D :: int assumes "0 < D" "b < u" "u < (b div D + 1) * D" shows "\<not> D dvd u"
proof
  assume "D dvd u"
  then have u: "u = (u div D) * D" by simp
  with assms have "(u div D) * D < (b div D + 1) * D" by simp
  with assms(1) have "u div D < b div D + 1" by (simp add: mult_less_cancel_right)
  then have "u div D \<le> b div D" by simp
  with assms(1) have "(u div D) * D \<le> (b div D) * D" by (simp add: mult_right_mono)
  moreover have "b div D * D + b mod D = b" by (rule div_mult_mod_eq)
  moreover have "0 \<le> b mod D" using assms(1) by simp
  ultimately have "(u div D) * D \<le> b" by linarith
  with u assms(2) show False by simp
qed

lemma sample_lib_contract: "croniter_contract sample_lib daily_midnight_matches"
proof -
  have D: "0 < us_per_day" by (simp add: us_per_day_def)
  show ?thesis
    unfolding croniter_contract_def sample_lib_def daily_midnight_matches_def
    using next_multiple_greater [OF D] next_multiple_least [OF D]
    by (auto simp: Let_def split: if_splits)
qed

lemma spec_filter_source:
  "spec_filter_satisfied u day c =
     (u = ''WORKDAY'' \<and> is_workday day
      \<or> u = ''HOLIDAY'' \<and> is_holiday day
      \<or> u = ''WEEKEND'' \<and> is_weekend day
      \<or> u = ''WEEKDAY_ONLY'' \<and> 1 \<le> isoweekday c \<and> isoweekday c \<le> 5)"
proof (cases "day_type day")
  case None
  then show ?thesis
    by (simp add: spec_filter_satisfied_def is_workday_def is_holiday_def is_weekend_def)
next
  case (Some t)
  then show ?thesis
    unfolding spec_filter_satisfied_def is_workday_def is_holiday_def is_weekend_def
    by (simp add: conj_commute)
qed

lemma if_chain:
  "(if A then True else if B then True else if C then True else if D then True else E)
     = ((A \<or> B \<or> C \<or> D) \<or> E)"
  by simp

lemma day_matched_limit_step:
  "day_matched_limit (l # ls) day c =
     (spec_filter_satisfied (str_upper l) day c \<or> day_matched_limit ls day c)"
  unfolding spec_filter_source day_matched_limit.simps Let_def
  by (rule if_chain)

lemma day_matched_limit_spec:
  "day_matched_limit ls day c = (\<exists>f \<in> set ls. spec_filter_satisfied (str_upper f) day c)"
  by (induction ls) (simp_all only: day_matched_limit_step day_matched_limit.simps list.set ball_simps bex_simps empty_iff insert_iff simp_thms bex_triv_one_point1 bex_triv_one_point2 bex_disj_distrib)

lemma candidates_determine_loop:
  assumes "fromSolarDate lib' = fromSolarDate lib"
  shows "candidates lib n it = candidates lib' n it' \<Longrightarrow>
         cron_loop lib cfg g n it = cron_loop lib' cfg g n it'"
proof (induction n arbitrary: it it')
  case 0
  show ?case by simp
next
  case (Suc n)
  have lc: "lunar_check lib' cfg c = lunar_check lib cfg c" for c
    unfolding lunar_check_def assms by (rule refl)
  have ex: "examine_candidate lib' cfg g c = examine_candidate lib cfg g c" for c
    unfolding examine_candidate_def lc by (rule refl)
  show ?case
  proof (cases "get_next lib it")
    case None
    with Suc.prems have "get_next lib' it' = None" by (auto split: option.splits)
    with None show ?thesis by simp
  next
    case (Some p)
    obtain c k where p: "p = (c, k)" by (cases p)
    with Some Suc.prems obtain k' where
      g': "get_next lib' it' = Some (c, k')" and rest: "candidates lib n k = candidates lib' n k'"
      by (auto split: option.splits)
    from Suc.IH [OF rest] Some p g' ex show ?thesis by (simp split: step.splits)
  qed
qed

lemma loop_exhausted:
  "\<forall>x \<in> set (candidates lib n it). \<exists>c. x = Some c \<and> examine_candidate lib cfg g c = Continue
   \<Longrightarrow> cron_loop lib cfg g n it = (None, FAILED)"
proof (induction n arbitrary: it)
  case 0
  show ?case by simp
next
  case (Suc n)
  show ?case
  proof (cases "get_next lib it")
    case None
    then show ?thesis by simp
  next
    case (Some p)
    obtain c k where p: "p = (c, k)" by (cases p)
    with Some Suc.prems have "examine_candidate lib cfg g c = Continue"
      and "\<forall>x \<in> set (candidates lib n k). \<exists>c. x = Some c \<and> examine_candidate lib cfg g c = Continue"
      by auto
    with Suc.IH [of k] Some p show ?thesis by simp
  qed
qed

lemma candidates_length: "length (candidates lib n it) \<le> n"
  by (induction n arbitrary: it) (auto split: option.splits)

lemma lunar_2_30_continue: "examine_candidate sample_lib lunar_2_30_cron g c = Continue"
  by (simp add: examine_candidate_def calendar_lookup_def lunar_check_def limit_check_def
        needs_calendar_data_for_limit_days_def lunar_2_30_cron_def sample_cron_def sample_lib_def)

lemma sample_candidates_some: "x \<in> set (candidates sample_lib n it) \<Longrightarrow> \<exists>c. x = Some c"
  by (induction n arbitrary: it) (auto simp: sample_lib_def Let_def)

lemma examine_candidate_shape:
  "examine_candidate lib cfg g c = Return (t, st) \<Longrightarrow>
     ((t \<noteq> None) = (st = PENDING \<or> st = PENDING_CALCULATION)) \<and> st \<noteq> RUNNING"
  by (auto simp: examine_candidate_def calendar_lookup_def lunar_check_def limit_check_def Let_def
      split: if_splits option.splits sum.splits py_exception.splits)

lemma cron_loop_shape:
  "cron_loop lib cfg g n it = (t, st) \<Longrightarrow>
     ((t \<noteq> None) = (st = PENDING \<or> st = PENDING_CALCULATION)) \<and> st \<noteq> RUNNING"
proof (induction n arbitrary: it)
  case 0
  then show ?case by simp
next
  case (Suc n)
  show ?case
  proof (cases "get_next lib it")
    case None
    with Suc.prems show ?thesis by simp
  next
    case (Some p)
    obtain c it' where p: "p = (c, it')" by (cases p)
    show ?thesis
    proof (cases "examine_candidate lib cfg g c")
      case (Return r)
      with Suc.prems Some p have "examine_candidate lib cfg g c = Return (t, st)" by simp
      then show ?thesis by (rule examine_candidate_shape)
    next
      case Continue
      with Suc.prems Some p have "cron_loop lib cfg g n it' = (t, st)" by simp
      then show ?thesis by (rule Suc.IH)
    qed
  qed
qed

lemma get_next_cron_run_time_shape:
  "get_next_cron_run_time lib cfg base g n = Inr (t, st) \<Longrightarrow>
     ((t \<noteq> None) = (st = PENDING \<or> st = PENDING_CALCULATION)) \<and> st \<noteq> RUNNING"
  by (auto simp: get_next_cron_run_time_def split: sum.splits option.splits dest: cron_loop_shape)

lemma calculate_initial_shape:
  "calculate_initial_trigger_time lib info g now = Inr (t, st) \<Longrightarrow>
     ((t \<noteq> None) = (st = PENDING \<or> st = PENDING_CALCULATION)) \<and> st \<noteq> RUNNING"
  by (auto simp: calculate_initial_trigger_time_def
      split: if_splits sum.splits option.splits py_exception.splits dest: get_next_cron_run_time_shape)

lemma examine_ignores_getter:
  "\<not> needs_calendar_data_for_limit_days cfg \<Longrightarrow>
   examine_candidate lib cfg g c = examine_candidate lib cfg g' c"
  by (simp add: examine_candidate_def calendar_lookup_def)

lemma cron_loop_ignores_getter:
  assumes "\<not> needs_calendar_data_for_limit_days cfg"
  shows "cron_loop lib cfg g n it = cron_loop lib cfg g' n it"
proof (induction n arbitrary: it)
  case 0
  show ?case by simp
next
  case (Suc n)
  show ?case
  proof (cases "get_next lib it")
    case None
    then show ?thesis by simp
  next
    case (Some p)
    obtain c k where "p = (c, k)" by (cases p)
    with Some Suc.IH [of k] examine_ignores_getter [OF assms, of lib g c g']
    show ?thesis by (simp split: step.splits)
  qed
qed

text \<open>
  C1, as the code has it. The calendar is consulted only for a rule with a non-empty
  day-type filter (\<open>limit_days\<close>). For such a rule, whenever the loop obtains a candidate
  that passes the start and end bounds and whose year has no calendar data, or whose date is
  missing from the year's data, the computation returns that candidate with status
  PENDING\_CALCULATION: at any attempt of the loop, and for the whole function when the
  candidate is the first one. A rule without a day-type filter, lunar or not, never consults
  the calendar (its result is the same for every calendar) and never returns
  PENDING\_CALCULATION.
\<close>

theorem missing_calendar_data_degrades:
  "(needs_calendar_data_for_limit_days cfg
      \<and> get_next lib it = Some (c, it') \<and> in_window cfg c
      \<and> (getter (dt_year c) = []
           \<or> find (\<lambda>d. hd_date d = strftime_ymd c) (getter (dt_year c)) = None)
    \<longrightarrow> cron_loop lib cfg getter (Suc n) it = (Some c, PENDING_CALCULATION)
        \<and> (clamp_base cfg base = Inr b \<and> croniter_init lib (cron_expression cfg) b = Some it
             \<longrightarrow> get_next_cron_run_time lib cfg base getter (Suc n)
                   = Inr (Some c, PENDING_CALCULATION)))
   \<and> (\<not> needs_calendar_data_for_limit_days cfg
        \<longrightarrow> snd (cron_loop lib cfg getter m it) \<noteq> PENDING_CALCULATION
            \<and> cron_loop lib cfg getter m it = cron_loop lib cfg getter' m it)"
proof -
  have a: "cron_loop lib cfg getter (Suc n) it = (Some c, PENDING_CALCULATION)"
    if h: "needs_calendar_data_for_limit_days cfg" "get_next lib it = Some (c, it')"
      "in_window cfg c"
      "getter (dt_year c) = []
           \<or> find (\<lambda>d. hd_date d = strftime_ymd c) (getter (dt_year c)) = None"
  proof -
    from h(4) have "find (\<lambda>d. hd_date d = strftime_ymd c) (getter (dt_year c)) = None" by auto
    with h show ?thesis by (simp add: examine_missing_calendar)
  qed
  then have b: "get_next_cron_run_time lib cfg base getter (Suc n) = Inr (Some c, PENDING_CALCULATION)"
    if "needs_calendar_data_for_limit_days cfg" "get_next lib it = Some (c, it')"
      "in_window cfg c"
      "getter (dt_year c) = []
           \<or> find (\<lambda>d. hd_date d = strftime_ymd c) (getter (dt_year c)) = None"
      "clamp_base cfg base = Inr b" "croniter_init lib (cron_expression cfg) b = Some it"
    using that by (simp add: get_next_cron_run_time_def)
  from a b cron_loop_no_calendar_needed [of cfg lib getter m it]
    cron_loop_ignores_getter [of cfg lib getter m it getter']
  show ?thesis by blast
qed

theorem missing_calendar_data_degrades_witness:
  "needs_calendar_data_for_limit_days workday_cron
   \<and> get_next sample_lib sample_now = Some (midnight 29, midnight 29)
   \<and> in_window workday_cron (midnight 29)
   \<and> no_calendar (dt_year (midnight 29)) = []
   \<and> clamp_base workday_cron sample_now = Inr sample_now
   \<and> croniter_init sample_lib (cron_expression workday_cron) sample_now = Some sample_now
   \<and> get_next_cron_run_time sample_lib workday_cron sample_now no_calendar (Suc 731)
        = Inr (Some (midnight 29), PENDING_CALCULATION)
   \<and> get_next sample_lib (midnight 29) = Some (midnight 30, midnight 30)
   \<and> calendar_2025 (dt_year (midnight 30)) \<noteq> []
   \<and> find (\<lambda>d. hd_date d = strftime_ymd (midnight 30)) (calendar_2025 (dt_year (midnight 30))) = None
   \<and> cron_loop sample_lib workday_cron calendar_2025 (Suc 0) (midnight 29)
        = (Some (midnight 30), PENDING_CALCULATION)
   \<and> \<not> needs_calendar_data_for_limit_days lunar_new_year_cron
   \<and> snd (cron_loop sample_lib lunar_new_year_cron no_calendar 732 sample_now) = PENDING"
  using
    missing_calendar_data_degrades [of workday_cron sample_lib sample_now "midnight 29" "midnight 29"
      no_calendar 731 sample_now sample_now 0]
    missing_calendar_data_degrades [of workday_cron sample_lib "midnight 29" "midnight 30" "midnight 30"
      calendar_2025 0 sample_now sample_now 0]
    missing_calendar_data_degrades [of lunar_new_year_cron sample_lib sample_now "midnight 29" "midnight 29"
      no_calendar 0 sample_now sample_now 732]
  by (simp add: loop_defs cron_loop_unfold in_window_def sample_lib_simps sample_defs)

text \<open>
  C1 as stated fails for a rule with lunar matching and no day-type filter: the calendar
  knows no year at all, and the rule for the lunar new year, computed on 28 January 2025 at
  noon, returns 29 January 00:00 with status PENDING, not PENDING\_CALCULATION.
\<close>

theorem lunar_rule_ignores_calendar_counterexample:
  "is_lunar lunar_new_year_cron
   \<and> no_calendar (dt_year (midnight 29)) = []
   \<and> get_next_cron_run_time sample_lib lunar_new_year_cron sample_now no_calendar
        default_max_attempts = Inr (Some (midnight 29), PENDING)"
  by (simp add: loop_defs cron_loop_unfold default_max_attempts_def sample_lib_simps
        lunar_new_year_cron_def sample_cron_def no_calendar_def)

text \<open>
  C2, as the code has it. For a rule without lunar matching, day-type filter and bounds,
  whose expression croniter accepts: when croniter yields a first candidate, the computation
  returns it with status PENDING; it is later than the base instant, it satisfies the
  expression, and no instant strictly between the base instant and it does. The base instant
  itself is never returned. When croniter raises instead, the result is no trigger and
  status FAILED.
\<close>

theorem first_candidate_returned:
  assumes "croniter_contract lib matches"
    and "start_time cfg = None" and "end_time cfg = None"
    and "\<not> is_lunar cfg" and "\<not> needs_calendar_data_for_limit_days cfg"
    and "croniter_init lib (cron_expression cfg) base = Some it"
    and "0 < max_attempts"
  shows "(get_next lib it = None \<longrightarrow>
            get_next_cron_run_time lib cfg base getter max_attempts = Inr (None, FAILED))
       \<and> (\<forall>c it'. get_next lib it = Some (c, it') \<longrightarrow>
            get_next_cron_run_time lib cfg base getter max_attempts = Inr (Some c, PENDING)
            \<and> base < c \<and> matches (cron_expression cfg) c
            \<and> (\<forall>u. base < u \<and> u < c \<longrightarrow> \<not> matches (cron_expression cfg) u))"
proof (intro conjI impI allI)
  assume "get_next lib it = None"
  with assms show "get_next_cron_run_time lib cfg base getter max_attempts = Inr (None, FAILED)"
    by (simp add: get_next_cron_run_time_def clamp_base_def cron_loop_unfold)
next
  fix c it' assume g: "get_next lib it = Some (c, it')"
  have "examine_candidate lib cfg getter c = Return (Some c, PENDING)"
    using assms(2-5)
    by (auto simp: loop_defs split: option.splits)
  with assms g show "get_next_cron_run_time lib cfg base getter max_attempts = Inr (Some c, PENDING)"
    by (simp add: get_next_cron_run_time_def clamp_base_def cron_loop_unfold)
  from assms(1,6) g show "base < c" "matches (cron_expression cfg) c"
    unfolding croniter_contract_def by blast+
  fix u assume "base < u \<and> u < c"
  with assms(1,6) g show "\<not> matches (cron_expression cfg) u"
    unfolding croniter_contract_def by blast
qed

theorem first_candidate_returned_witness:
  "croniter_contract sample_lib daily_midnight_matches
   \<and> start_time sample_cron = None \<and> end_time sample_cron = None
   \<and> \<not> is_lunar sample_cron \<and> \<not> needs_calendar_data_for_limit_days sample_cron
   \<and> croniter_init sample_lib (cron_expression sample_cron) sample_now = Some sample_now
   \<and> 0 < default_max_attempts
   \<and> get_next sample_lib sample_now = Some (midnight 29, midnight 29)
   \<and> get_next_cron_run_time sample_lib sample_cron sample_now no_calendar default_max_attempts
        = Inr (Some (midnight 29), PENDING)
   \<and> sample_now < midnight 29
   \<and> daily_midnight_matches (cron_expression sample_cron) (midnight 29)"
  using first_candidate_returned [OF sample_lib_contract, of sample_cron sample_now sample_now
      default_max_attempts no_calendar]
  by (simp add: sample_lib_contract needs_calendar_data_for_limit_days_def sample_lib_simps
        sample_defs default_max_attempts_def)

text \<open>
  C2 as stated fails when the base instant itself satisfies the expression: for the daily
  midnight rule and the base instant 29 January 2025 00:00, the result is 30 January 00:00,
  although the base instant satisfies the expression and is not earlier than itself.
\<close>

theorem base_instant_excluded_counterexample:
  "get_next_cron_run_time sample_lib sample_cron (midnight 29) no_calendar default_max_attempts
     = Inr (Some (midnight 30), PENDING)
   \<and> daily_midnight_matches (cron_expression sample_cron) (midnight 29)
   \<and> midnight 29 < midnight 30"
proof -
  have "get_next_cron_run_time sample_lib sample_cron (midnight 29) no_calendar
          default_max_attempts = Inr (Some (midnight 30), PENDING)"
    by (simp add: loop_defs cron_loop_unfold default_max_attempts_def sample_lib_simps
          sample_cron_def)
  moreover have "daily_midnight_matches (cron_expression sample_cron) (midnight 29)"
    by (simp add: daily_midnight_matches_def sample_cron_def midnight_values us_per_day_def)
  moreover have "midnight 29 < midnight 30"
    by (simp add: midnight_values)
  ultimately show ?thesis by simp
qed

text \<open>
  C3. With a non-empty day-type filter and the candidate's calendar day at hand, the test
  of the code is the specification's: some listed filter is satisfied, where WORKDAY means
  day type workday, HOLIDAY day type holiday or legal holiday, WEEKEND day type holiday on
  weekday 6 or 7, and WEEKDAY\_ONLY an ISO weekday from 1 to 5 whatever the calendar says.
  A candidate that satisfies one is returned with status PENDING; one that satisfies none is
  skipped and the search goes on with the next candidate and one attempt less.
\<close>

theorem day_type_filter:
  assumes "limit_days cfg = Some ls" and "ls \<noteq> []"
    and "get_next lib it = Some (c, it')" and "in_window cfg c"
    and "find (\<lambda>d. hd_date d = strftime_ymd c) (getter (dt_year c)) = Some day"
    and "lunar_check lib cfg c = None"
  shows "day_matched_limit ls day c = (\<exists>f \<in> set ls. spec_filter_satisfied (str_upper f) day c)
     \<and> cron_loop lib cfg getter (Suc n) it =
         (if \<exists>f \<in> set ls. spec_filter_satisfied (str_upper f) day c
          then (Some c, PENDING)
          else cron_loop lib cfg getter n it')"
proof -
  from assms(5) have ne: "getter (dt_year c) \<noteq> []" by auto
  have "examine_candidate lib cfg getter c =
          (if day_matched_limit ls day c then Return (Some c, PENDING) else Continue)"
    using assms ne
    by (auto simp: examine_candidate_def in_window_def calendar_lookup_def limit_check_def
          needs_calendar_data_for_limit_days_def Let_def split: option.splits)
  with assms(3) show ?thesis by (simp add: day_matched_limit_spec)
qed

theorem day_type_filter_witness:
  "limit_days workday_cron = Some [''WORKDAY'']
   \<and> get_next sample_lib friday_noon = Some (midnight 25, midnight 25)
   \<and> in_window workday_cron (midnight 25)
   \<and> find (\<lambda>d. hd_date d = strftime_ymd (midnight 25)) (calendar_2025 (dt_year (midnight 25)))
        = Some day_2025_01_25
   \<and> lunar_check sample_lib workday_cron (midnight 25) = None
   \<and> \<not> day_matched_limit [''WORKDAY''] day_2025_01_25 (midnight 25)
   \<and> get_next sample_lib (midnight 25) = Some (midnight 26, midnight 26)
   \<and> in_window workday_cron (midnight 26)
   \<and> find (\<lambda>d. hd_date d = strftime_ymd (midnight 26)) (calendar_2025 (dt_year (midnight 26)))
        = Some day_2025_01_26
   \<and> lunar_check sample_lib workday_cron (midnight 26) = None
   \<and> day_matched_limit [''WORKDAY''] day_2025_01_26 (midnight 26)
   \<and> cron_loop sample_lib workday_cron calendar_2025 (Suc 0) (midnight 25)
        = (Some (midnight 26), PENDING)
   \<and> cron_loop sample_lib workday_cron calendar_2025 (Suc (Suc 0)) friday_noon
        = (Some (midnight 26), PENDING)"
proof -
  have w: "spec_filter_satisfied (str_upper ''WORKDAY'') d c = (day_type d = Some 0)" for d c
    by (simp add: spec_filter_satisfied_def string_defs)
  have h25: "limit_days workday_cron = Some [''WORKDAY'']" "[''WORKDAY''] \<noteq> []"
    "get_next sample_lib friday_noon = Some (midnight 25, midnight 25)"
    "in_window workday_cron (midnight 25)"
    "find (\<lambda>d. hd_date d = strftime_ymd (midnight 25)) (calendar_2025 (dt_year (midnight 25)))
        = Some day_2025_01_25"
    "lunar_check sample_lib workday_cron (midnight 25) = None"
    by (simp_all add: in_window_def lunar_check_def sample_lib_simps sample_defs)
  have h26: "get_next sample_lib (midnight 25) = Some (midnight 26, midnight 26)"
    "in_window workday_cron (midnight 26)"
    "find (\<lambda>d. hd_date d = strftime_ymd (midnight 26)) (calendar_2025 (dt_year (midnight 26)))
        = Some day_2025_01_26"
    "lunar_check sample_lib workday_cron (midnight 26) = None"
    by (simp_all add: in_window_def lunar_check_def sample_lib_simps sample_defs)
  from day_type_filter [of workday_cron "[''WORKDAY'']" sample_lib friday_noon "midnight 25"
      "midnight 25" calendar_2025 day_2025_01_25 "Suc 0"]
    day_type_filter [of workday_cron "[''WORKDAY'']" sample_lib "midnight 25" "midnight 26"
      "midnight 26" calendar_2025 day_2025_01_26 0]
  show ?thesis using h25 h26
    by (simp add: w day_2025_01_25_def day_2025_01_26_def)
qed

text \<open>
  C4. The search is a recursion on the attempts that remain, 732 by default, so it always
  ends; with \<open>n\<close> attempts it obtains at most \<open>n\<close> candidates and its result depends on
  nothing but them; when every one of them is obtained and skipped, the result is no trigger
  and status FAILED.
\<close>

theorem bounded_candidate_search:
  "default_max_attempts = 732
   \<and> length (candidates lib n it) \<le> n
   \<and> (fromSolarDate lib' = fromSolarDate lib \<and> candidates lib n it = candidates lib' n it'
        \<longrightarrow> cron_loop lib cfg getter n it = cron_loop lib' cfg getter n it')
   \<and> ((\<forall>x \<in> set (candidates lib n it).
          \<exists>c. x = Some c \<and> examine_candidate lib cfg getter c = Continue)
        \<longrightarrow> cron_loop lib cfg getter n it = (None, FAILED))
   \<and> (clamp_base cfg base = Inr b \<and> croniter_init lib (cron_expression cfg) b = Some it
        \<and> (\<forall>x \<in> set (candidates lib default_max_attempts it).
              \<exists>c. x = Some c \<and> examine_candidate lib cfg getter c = Continue)
        \<longrightarrow> get_next_cron_run_time lib cfg base getter default_max_attempts = Inr (None, FAILED))"
proof (intro conjI impI)
  show "default_max_attempts = 732" by (simp add: default_max_attempts_def)
  show "length (candidates lib n it) \<le> n" by (rule candidates_length)
next
  assume "fromSolarDate lib' = fromSolarDate lib \<and> candidates lib n it = candidates lib' n it'"
  then have a: "fromSolarDate lib' = fromSolarDate lib"
    and b: "candidates lib n it = candidates lib' n it'" by simp_all
  show "cron_loop lib cfg getter n it = cron_loop lib' cfg getter n it'"
    by (rule candidates_determine_loop [OF a b])
next
  assume "\<forall>x \<in> set (candidates lib n it).
          \<exists>c. x = Some c \<and> examine_candidate lib cfg getter c = Continue"
  then show "cron_loop lib cfg getter n it = (None, FAILED)" by (rule loop_exhausted)
next
  assume h: "clamp_base cfg base = Inr b \<and> croniter_init lib (cron_expression cfg) b = Some it
        \<and> (\<forall>x \<in> set (candidates lib default_max_attempts it).
              \<exists>c. x = Some c \<and> examine_candidate lib cfg getter c = Continue)"
  then have "cron_loop lib cfg getter default_max_attempts it = (None, FAILED)"
    by (intro loop_exhausted) simp
  with h show "get_next_cron_run_time lib cfg base getter default_max_attempts = Inr (None, FAILED)"
    by (simp add: get_next_cron_run_time_def)
qed

theorem bounded_candidate_search_witness:
  "fromSolarDate sample_lib = fromSolarDate sample_lib
   \<and> candidates sample_lib (Suc (Suc 0)) sample_now = [Some (midnight 29), Some (midnight 30)]
   \<and> cron_loop sample_lib lunar_2_30_cron no_calendar (Suc (Suc 0)) sample_now = (None, FAILED)
   \<and> clamp_base lunar_2_30_cron sample_now = Inr sample_now
   \<and> croniter_init sample_lib (cron_expression lunar_2_30_cron) sample_now = Some sample_now
   \<and> get_next_cron_run_time sample_lib lunar_2_30_cron sample_now no_calendar default_max_attempts
        = Inr (None, FAILED)"
proof -
  have all: "\<forall>x \<in> set (candidates sample_lib n sample_now).
               \<exists>c. x = Some c \<and> examine_candidate sample_lib lunar_2_30_cron no_calendar c = Continue"
    for n
    using sample_candidates_some lunar_2_30_continue by blast
  have c: "candidates sample_lib (Suc (Suc 0)) sample_now = [Some (midnight 29), Some (midnight 30)]"
    by (simp add: sample_get_next)
  have i: "clamp_base lunar_2_30_cron sample_now = Inr sample_now"
    "croniter_init sample_lib (cron_expression lunar_2_30_cron) sample_now = Some sample_now"
    by (simp_all add: clamp_base_def lunar_2_30_cron_def sample_cron_def sample_croniter_init)
  note search = bounded_candidate_search [of sample_lib "Suc (Suc 0)" sample_now sample_lib
      sample_now lunar_2_30_cron no_calendar sample_now sample_now]
  have l: "cron_loop sample_lib lunar_2_30_cron no_calendar (Suc (Suc 0)) sample_now
             = (None, FAILED)"
    using search all [of "Suc (Suc 0)"] by blast
  have g: "get_next_cron_run_time sample_lib lunar_2_30_cron sample_now no_calendar
             default_max_attempts = Inr (None, FAILED)"
    using search all [of default_max_attempts] i by blast
  from c i l g show ?thesis by simp
qed

text \<open>
  C10. Whenever the initial computation or the recurring one returns, the trigger instant
  is present exactly when the status is PENDING or PENDING\_CALCULATION; with status FAILED
  or COMPLETED there is none.
\<close>

theorem trigger_present_iff_pending:
  "(calculate_initial_trigger_time lib info g now = Inr (t, st) \<longrightarrow>
      ((t \<noteq> None) = (st = PENDING \<or> st = PENDING_CALCULATION))
      \<and> (st = FAILED \<or> st = COMPLETED \<longrightarrow> t = None))
   \<and> (get_next_cron_run_time lib cfg base g' n = Inr (t', st') \<longrightarrow>
      ((t' \<noteq> None) = (st' = PENDING \<or> st' = PENDING_CALCULATION))
      \<and> (st' = FAILED \<or> st' = COMPLETED \<longrightarrow> t' = None))"
  using calculate_initial_shape [of lib info g now t st]
    get_next_cron_run_time_shape [of lib cfg base g' n t' st']
  by auto

theorem trigger_present_iff_pending_witness:
  "calculate_initial_trigger_time sample_lib
      (sample_info\<lparr>countdown_config := Some \<lparr>countdown_duration = ''0d''\<rparr>\<rparr>)
      no_calendar sample_now = Inr (Some sample_now, PENDING)
   \<and> get_next_cron_run_time sample_lib (sample_cron\<lparr>end_time := Some sample_now\<rparr>) sample_now
        no_calendar default_max_attempts = Inr (None, COMPLETED)
   \<and> ((Some sample_now \<noteq> None) = (PENDING = PENDING \<or> PENDING = PENDING_CALCULATION))
   \<and> (((None :: datetime option) \<noteq> None) = (COMPLETED = PENDING \<or> COMPLETED = PENDING_CALCULATION))"
proof -
  have a: "calculate_initial_trigger_time sample_lib
      (sample_info\<lparr>countdown_config := Some \<lparr>countdown_duration = ''0d''\<rparr>\<rparr>)
      no_calendar sample_now = Inr (Some sample_now, PENDING)"
    by (simp add: calculate_initial_trigger_time_def sample_info_def parse_zero_days
          datetime_add_def sample_now_value datetime_max_value)
  have "sample_now < midnight 29" by (simp add: sample_now_value midnight_values)
  then have b: "get_next_cron_run_time sample_lib (sample_cron\<lparr>end_time := Some sample_now\<rparr>)
        sample_now no_calendar default_max_attempts = Inr (None, COMPLETED)"
    by (simp add: loop_defs cron_loop_unfold default_max_attempts_def sample_lib_simps
          sample_cron_def)
  from trigger_present_iff_pending [of sample_lib
      "sample_info\<lparr>countdown_config := Some \<lparr>countdown_duration = ''0d''\<rparr>\<rparr>" no_calendar
      sample_now "Some sample_now" PENDING "sample_cron\<lparr>end_time := Some sample_now\<rparr>"
      sample_now no_calendar default_max_attempts None COMPLETED] a b
  show ?thesis by simp
qed

section \<open>The live timers\<close>

lemmas task_defs = recurring_task_def recurring_info_def recurring_job_def sample_state_def
  other_task_def other_job_def armed_state_def failing_env_def

lemma find_none_filter: "find P xs = None \<Longrightarrow> filter P xs = []"
  by (induction xs) (auto split: if_splits)

lemma find_append_new: "find P xs = None \<Longrightarrow> P y \<Longrightarrow> find P (xs @ [y]) = Some y"
  by (induction xs) (auto split: if_splits)

lemma find_replace:
  "find (\<lambda>x. f x = i) xs = Some y \<Longrightarrow> f z = i \<Longrightarrow>
   find (\<lambda>x. f x = i) (map (\<lambda>x. if f x = i then z else x) xs) = Some z"
  by (induction xs) (auto split: if_splits)

lemma ids_replace: "f z = i \<Longrightarrow> map f (map (\<lambda>x. if f x = i then z else x) xs) = map f xs"
  by (induction xs) auto

lemma count_distinct:
  "distinct (map f xs) \<Longrightarrow> find (\<lambda>x. f x = i) xs = Some y \<Longrightarrow>
   length (filter (\<lambda>x. f x = i) xs) = 1"
proof (induction xs)
  case Nil
  then show ?case by simp
next
  case (Cons x xs)
  show ?case
  proof (cases "f x = i")
    case True
    with Cons.prems have "i \<notin> f ` set xs" by simp
    then have "\<forall>z \<in> set xs. f z \<noteq> i" by blast
    then have "filter (\<lambda>x. f x = i) xs = []" by (simp add: filter_empty_conv)
    with True show ?thesis by simp
  next
    case False
    with Cons show ?thesis by simp
  qed
qed

lemma replace_idem:
  "map (\<lambda>x. if f x = f z then z else x) (map (\<lambda>x. if f x = f z then z else x) xs)
     = map (\<lambda>x. if f x = f z then z else x) xs"
  by (induction xs) auto

lemma arm_result:
  assumes "next_trigger_time task = Some t"
  defines "j \<equiv> \<lparr>job_id = task_id task, run_date = t, job_name = db_task_name task,
                  misfire_grace_time = (if db_is_recurring task then 3600 else 600)\<rparr>"
  shows "add_or_update_job_in_scheduler jobs task =
           (case get_job jobs (task_id task) of
              None \<Rightarrow> jobs @ [j]
            | Some x \<Rightarrow> map (\<lambda>j'. if job_id j' = task_id task then j else j') jobs)"
  using assms by (simp add: add_or_update_job_in_scheduler_def add_job_def split: option.splits)

lemma arm_get_job:
  assumes "next_trigger_time task = Some t"
  shows "get_job (add_or_update_job_in_scheduler jobs task) (task_id task) =
           Some \<lparr>job_id = task_id task, run_date = t, job_name = db_task_name task,
                 misfire_grace_time = (if db_is_recurring task then 3600 else 600)\<rparr>"
proof (cases "get_job jobs (task_id task)")
  case None
  then show ?thesis
    using assms find_append_new [of "\<lambda>j. job_id j = task_id task" jobs]
    by (simp add: arm_result get_job_def)
next
  case (Some x)
  then show ?thesis
    using assms find_replace [of job_id "task_id task" jobs x]
    by (simp add: arm_result get_job_def)
qed

lemma arm_distinct:
  assumes "next_trigger_time task = Some t" and "distinct_ids jobs"
  shows "distinct_ids (add_or_update_job_in_scheduler jobs task)"
proof (cases "get_job jobs (task_id task)")
  case None
  then have "filter (\<lambda>j. job_id j = task_id task) jobs = []"
    by (simp add: get_job_def find_none_filter)
  then have "task_id task \<notin> job_id ` set jobs" by (auto simp: filter_empty_conv)
  with None assms show ?thesis by (simp add: arm_result distinct_ids_def)
next
  case (Some x)
  let ?j = "\<lparr>job_id = task_id task, run_date = t, job_name = db_task_name task,
             misfire_grace_time = (if db_is_recurring task then 3600 else 600)\<rparr>"
  let ?r = "\<lambda>j'. if job_id j' = task_id task then ?j else j'"
  have r: "add_or_update_job_in_scheduler jobs task = map ?r jobs"
    using Some assms(1) by (simp add: arm_result)
  have "map job_id (map ?r jobs) = map job_id jobs"
    by (rule ids_replace) simp
  with assms(2) show ?thesis
    unfolding r distinct_ids_def by (simp only:)
qed

lemma arm_idempotent:
  assumes "next_trigger_time task = Some t"
  shows "add_or_update_job_in_scheduler (add_or_update_job_in_scheduler jobs task) task
           = add_or_update_job_in_scheduler jobs task"
proof -
  let ?j = "\<lparr>job_id = task_id task, run_date = t, job_name = db_task_name task,
             misfire_grace_time = (if db_is_recurring task then 3600 else 600)\<rparr>"
  let ?r = "\<lambda>j'. if job_id j' = job_id ?j then ?j else j'"
  have two: "add_or_update_job_in_scheduler (add_or_update_job_in_scheduler jobs task) task
               = map ?r (add_or_update_job_in_scheduler jobs task)"
    using arm_get_job [OF assms, of jobs] arm_result [OF assms, of "add_or_update_job_in_scheduler jobs task"]
    by simp
  show ?thesis
  proof (cases "get_job jobs (task_id task)")
    case None
    then have "filter (\<lambda>j. job_id j = task_id task) jobs = []"
      by (simp add: get_job_def find_none_filter)
    then have "\<forall>x \<in> set jobs. job_id x \<noteq> task_id task" by (simp add: filter_empty_conv)
    then have "map ?r jobs = jobs" by (simp add: map_idI)
    with None assms two show ?thesis by (simp add: arm_result)
  next
    case (Some x)
    with assms two replace_idem [of job_id ?j jobs] show ?thesis by (simp add: arm_result)
  qed
qed

lemma filter_replace:
  "f z = i \<Longrightarrow>
   filter (\<lambda>x. f x \<noteq> i) (map (\<lambda>x. if f x = i then z else x) xs) = filter (\<lambda>x. f x \<noteq> i) xs"
  by (induction xs) auto

lemma find_filter_other:
  "k \<noteq> i \<Longrightarrow>
   find (\<lambda>x. f x = k) (filter (\<lambda>x. f x \<noteq> i) xs) = find (\<lambda>x. f x = k) xs"
  by (induction xs) auto

lemma arm_frame:
  "filter (\<lambda>j. job_id j \<noteq> task_id task) (add_or_update_job_in_scheduler jobs task)
     = filter (\<lambda>j. job_id j \<noteq> task_id task) jobs"
proof (cases "next_trigger_time task")
  case None
  then show ?thesis by (simp add: add_or_update_job_in_scheduler_def)
next
  case (Some t)
  let ?j = "\<lparr>job_id = task_id task, run_date = t, job_name = db_task_name task,
             misfire_grace_time = (if db_is_recurring task then 3600 else 600)\<rparr>"
  show ?thesis
  proof (cases "get_job jobs (task_id task)")
    case None
    with Some show ?thesis by (simp add: arm_result)
  next
    case (Some x)
    have "filter (\<lambda>j. job_id j \<noteq> task_id task)
            (map (\<lambda>j'. if job_id j' = task_id task then ?j else j') jobs)
          = filter (\<lambda>j. job_id j \<noteq> task_id task) jobs"
      by (rule filter_replace) simp
    with Some \<open>next_trigger_time task = Some t\<close> show ?thesis
      by (simp only: arm_result option.case)
  qed
qed

lemma get_job_frame:
  assumes "filter (\<lambda>j. job_id j \<noteq> i) jobs' = filter (\<lambda>j. job_id j \<noteq> i) jobs" and "k \<noteq> i"
  shows "get_job jobs' k = get_job jobs k"
proof -
  have "get_job jobs' k = find (\<lambda>j. job_id j = k) (filter (\<lambda>j. job_id j \<noteq> i) jobs')"
    using assms(2) by (simp add: get_job_def find_filter_other)
  also have "\<dots> = get_job jobs k"
    using assms by (simp add: get_job_def find_filter_other)
  finally show ?thesis .
qed

text \<open>
  C9. Arming is an idempotent upsert over the live timers. For a task with a trigger time
  and a job store whose ids are pairwise different (APScheduler's invariant, which arming
  keeps), arming twice gives the same store as arming once; that store holds exactly one job
  with the task's id, and it is the job just armed, whatever timer the task had before; the
  jobs of every other id are the ones the store held, in the same order.
\<close>

theorem arm_is_idempotent_upsert:
  assumes "next_trigger_time task = Some t" and "distinct_ids jobs"
  shows "add_or_update_job_in_scheduler (add_or_update_job_in_scheduler jobs task) task
           = add_or_update_job_in_scheduler jobs task
     \<and> length (filter (\<lambda>j. job_id j = task_id task)
                 (add_or_update_job_in_scheduler (add_or_update_job_in_scheduler jobs task) task)) = 1
     \<and> get_job (add_or_update_job_in_scheduler (add_or_update_job_in_scheduler jobs task) task)
          (task_id task)
         = Some \<lparr>job_id = task_id task, run_date = t, job_name = db_task_name task,
                 misfire_grace_time = (if db_is_recurring task then 3600 else 600)\<rparr>
     \<and> distinct_ids (add_or_update_job_in_scheduler (add_or_update_job_in_scheduler jobs task) task)
     \<and> filter (\<lambda>j. job_id j \<noteq> task_id task)
          (add_or_update_job_in_scheduler (add_or_update_job_in_scheduler jobs task) task)
         = filter (\<lambda>j. job_id j \<noteq> task_id task) jobs
     \<and> (\<forall>k. k \<noteq> task_id task \<longrightarrow>
          get_job (add_or_update_job_in_scheduler (add_or_update_job_in_scheduler jobs task) task) k
            = get_job jobs k)"
proof -
  let ?once = "add_or_update_job_in_scheduler jobs task"
  have d: "distinct_ids ?once" using assms by (rule arm_distinct)
  have g: "get_job ?once (task_id task)
         = Some \<lparr>job_id = task_id task, run_date = t, job_name = db_task_name task,
                 misfire_grace_time = (if db_is_recurring task then 3600 else 600)\<rparr>"
    using assms(1) by (rule arm_get_job)
  from d g have n: "length (filter (\<lambda>j. job_id j = task_id task) ?once) = 1"
    unfolding distinct_ids_def get_job_def by (rule count_distinct)
  have f: "filter (\<lambda>j. job_id j \<noteq> task_id task) ?once
             = filter (\<lambda>j. job_id j \<noteq> task_id task) jobs"
    by (rule arm_frame)
  have o: "\<forall>k. k \<noteq> task_id task \<longrightarrow> get_job ?once k = get_job jobs k"
    using get_job_frame [OF f] by blast
  from d g n f o arm_idempotent [OF assms(1), of jobs] show ?thesis by simp
qed

theorem arm_is_idempotent_upsert_witness:
  "next_trigger_time recurring_task = Some (midnight 28)
   \<and> distinct_ids [recurring_job (midnight 25), other_job]
   \<and> add_or_update_job_in_scheduler
        (add_or_update_job_in_scheduler [recurring_job (midnight 25), other_job] recurring_task)
        recurring_task
       = [recurring_job (midnight 28), other_job]
   \<and> distinct_ids [other_job]
   \<and> add_or_update_job_in_scheduler
        (add_or_update_job_in_scheduler [other_job] recurring_task) recurring_task
       = [other_job, recurring_job (midnight 28)]
   \<and> get_job
        (add_or_update_job_in_scheduler
           (add_or_update_job_in_scheduler [other_job] recurring_task) recurring_task) ''t2''
       = Some other_job"
  using
    arm_is_idempotent_upsert [of recurring_task "midnight 28"
      "[recurring_job (midnight 25), other_job]"]
    arm_is_idempotent_upsert [of recurring_task "midnight 28" "[other_job]"]
  by (simp add: recurring_task_def recurring_job_def other_job_def distinct_ids_def
        add_or_update_job_in_scheduler_def add_job_def get_job_def)

section \<open>The timer callback\<close>

lemma get_task_id: "get_task s i = Some task \<Longrightarrow> task_id task = i"
  by (auto simp: get_task_def dest: find_Some_iff [THEN iffD1])

lemma get_job_removed: "get_job (remove_job_from_scheduler jobs i) i = None"
proof -
  have "find (\<lambda>j. job_id j = i) (filter (\<lambda>j. job_id j \<noteq> i) jobs) = None"
    by (induction jobs) auto
  then show ?thesis
    by (simp add: remove_job_from_scheduler_def remove_job_def get_job_def split: option.splits)
qed

lemma commit_fields [simp]:
  "holiday_dates (commit s task) = holiday_dates s"
  "scheduler (commit s task) = scheduler s"
  "sent (commit s task) = sent s"
  "commit_log (commit s task) = commit_log s @ [task]"
  by (simp_all add: commit_def)

lemma commit_get_task:
  "get_task s i = Some old \<Longrightarrow> task_id task = i \<Longrightarrow> get_task (commit s task) i = Some task"
  using find_replace [of task_id i "reminder_tasks s" old task]
  by (simp add: get_task_def commit_def)

lemma holidays_after_commit:
  "get_holiday_dates_for_year (commit s task) = get_holiday_dates_for_year s"
  by (rule ext) (simp add: get_holiday_dates_for_year_def)

lemma holidays_after_sent:
  "get_holiday_dates_for_year (s\<lparr>sent := x\<rparr>) = get_holiday_dates_for_year s"
  by (rule ext) (simp add: get_holiday_dates_for_year_def)

lemma after_failed_notification:
  assumes "get_task s i = Some old" and "task_id task = i"
    and "db_is_recurring task" and "cron_config tim = Some cfg"
    and "get_next_cron_run_time lib cfg (base_for_next_calc_local env)
           (get_holiday_dates_for_year s) default_max_attempts = Inr (Some t, PENDING)"
  shows "after_notification lib env s task tim False =
           (commit (commit s (task\<lparr>status := FAILED\<rparr>))
                   (task\<lparr>next_trigger_time := Some t, status := PENDING\<rparr>))
             \<lparr>scheduler := add_or_update_job_in_scheduler (scheduler s)
                             (task\<lparr>next_trigger_time := Some t, status := PENDING\<rparr>)\<rparr>"
  using assms
  by (simp add: after_notification_def holidays_after_commit Let_def)

lemma notify_send_fails:
  assumes "truthy (target_chat_id tim) \<or> truthy (triggering_user_id tim)"
    and "webhook_channel tim \<noteq> None \<or> email_channel tim \<noteq> None"
    and "\<not> send_result env"
  shows "\<exists>log. notify lib env s task tim content
           = after_notification lib env (s\<lparr>sent := log\<rparr>) task tim False"
proof -
  have same: "after_notification lib env s task tim False
                = after_notification lib env (s\<lparr>sent := sent s\<rparr>) task tim False"
    by simp
  define fr where "fr = (if truthy (target_chat_id tim) then target_chat_id tim
          else triggering_user_id tim)"
  have "truthy fr" using assms(1) by (auto simp: fr_def)
  then obtain r where "fr = Some r" "r \<noteq> []"
    by (auto simp: truthy_def split: option.splits)
  then have r: "(if truthy (target_chat_id tim) then target_chat_id tim
          else triggering_user_id tim) = Some r" "r \<noteq> []"
    by (simp_all add: fr_def)
  show ?thesis
  proof (cases "webhook_channel tim")
    case (Some wh)
    with r assms(3) show ?thesis
      by (auto simp: notify_def Let_def)
  next
    case None
    with assms(2) obtain em where em: "email_channel tim = Some em" by auto
    show ?thesis
    proof (cases "mail_configured env")
      case True
      with None em r assms(3) show ?thesis by (auto simp: notify_def Let_def)
    next
      case False
      with None em r same show ?thesis by (auto simp: notify_def Let_def intro: exI [of _ "sent s"])
    qed
  qed
qed

text \<open>
  C7. A recurring task is loaded in a fireable state, its content is built, it has a
  recipient and a channel, and the send call reports a failure. Then FAILED is committed for
  this occurrence (after RUNNING), the next occurrence is computed by
  \<open>get_next_cron_run_time\<close> from the clock's reading, and when that gives a trigger with
  status PENDING the row is committed with them and the task is armed again: the scheduler
  then holds the task's job at the new trigger.
\<close>

theorem failed_send_keeps_recurrence:
  assumes "get_task s i = Some task" and "fireable (status task)"
    and "task_info task = Some tim"
    and "base_reminder_content env tim = Inr content"
    and "truthy (target_chat_id tim) \<or> truthy (triggering_user_id tim)"
    and "webhook_channel tim \<noteq> None \<or> email_channel tim \<noteq> None"
    and "\<not> send_result env"
    and "db_is_recurring task" and "cron_config tim = Some cfg"
    and "get_next_cron_run_time lib cfg (base_for_next_calc_local env)
           (get_holiday_dates_for_year s) default_max_attempts = Inr (Some t, PENDING)"
  shows "commit_log (execute_task_by_id lib env i s)
           = commit_log s @ [task\<lparr>status := RUNNING\<rparr>, task\<lparr>status := FAILED\<rparr>,
                            task\<lparr>next_trigger_time := Some t, status := PENDING\<rparr>]
     \<and> get_task (execute_task_by_id lib env i s) i
           = Some (task\<lparr>next_trigger_time := Some t, status := PENDING\<rparr>)
     \<and> scheduler (execute_task_by_id lib env i s)
           = add_or_update_job_in_scheduler (scheduler s)
               (task\<lparr>next_trigger_time := Some t, status := PENDING\<rparr>)
     \<and> get_job (scheduler (execute_task_by_id lib env i s)) i
           = Some \<lparr>job_id = i, run_date = t, job_name = db_task_name task,
                   misfire_grace_time = 3600\<rparr>"
proof -
  let ?running = "task\<lparr>status := RUNNING\<rparr>"
  let ?next = "task\<lparr>next_trigger_time := Some t, status := PENDING\<rparr>"
  let ?s1 = "commit s ?running"
  have id: "task_id task = i" using assms(1) by (rule get_task_id)
  have run: "execute_task_by_id lib env i s = notify lib env ?s1 ?running tim content"
    using assms(1-4) by (simp add: execute_task_by_id_def Let_def)
  from notify_send_fails [OF assms(5-7), of lib ?s1 ?running content]
  obtain log where n: "notify lib env ?s1 ?running tim content
      = after_notification lib env (?s1\<lparr>sent := log\<rparr>) ?running tim False" by blast
  have g1: "get_task (?s1\<lparr>sent := log\<rparr>) i = Some ?running"
    using commit_get_task [OF assms(1), of ?running] id by (simp add: get_task_def)
  have hol: "get_holiday_dates_for_year (?s1\<lparr>sent := log\<rparr>) = get_holiday_dates_for_year s"
    by (simp add: holidays_after_sent holidays_after_commit)
  have fin: "execute_task_by_id lib env i s =
      (commit (commit (?s1\<lparr>sent := log\<rparr>) (task\<lparr>status := FAILED\<rparr>)) ?next)
        \<lparr>scheduler := add_or_update_job_in_scheduler (scheduler s) ?next\<rparr>"
    using after_failed_notification [OF g1, of ?running tim cfg lib env t] id assms(8-10) hol
    by (simp add: run n)
  have log: "commit_log (execute_task_by_id lib env i s)
           = commit_log s @ [?running, task\<lparr>status := FAILED\<rparr>, ?next]"
    by (simp add: fin)
  have g2: "get_task (commit (?s1\<lparr>sent := log\<rparr>) (task\<lparr>status := FAILED\<rparr>)) i
              = Some (task\<lparr>status := FAILED\<rparr>)"
    using commit_get_task [OF g1, of "task\<lparr>status := FAILED\<rparr>"] id by simp
  have row: "get_task (execute_task_by_id lib env i s) i = Some ?next"
    using commit_get_task [OF g2, of ?next] id by (simp add: fin get_task_def)
  have sch: "scheduler (execute_task_by_id lib env i s)
           = add_or_update_job_in_scheduler (scheduler s) ?next"
    by (simp add: fin)
  have job: "get_job (scheduler (execute_task_by_id lib env i s)) i
           = Some \<lparr>job_id = i, run_date = t, job_name = db_task_name task,
                   misfire_grace_time = 3600\<rparr>"
    using arm_get_job [of ?next t "scheduler s"] id assms(8) by (simp add: sch)
  from log row sch job show ?thesis by simp
qed

theorem failed_send_keeps_recurrence_witness:
  "get_task sample_state ''t1'' = Some recurring_task
   \<and> fireable (status recurring_task)
   \<and> task_info recurring_task = Some recurring_info
   \<and> base_reminder_content failing_env recurring_info = Inr (Plain ''drink water'')
   \<and> \<not> send_result failing_env
   \<and> db_is_recurring recurring_task
   \<and> cron_config recurring_info = Some sample_cron
   \<and> get_next_cron_run_time sample_lib sample_cron (base_for_next_calc_local failing_env)
        (get_holiday_dates_for_year sample_state) default_max_attempts
        = Inr (Some (midnight 29), PENDING)
   \<and> map status (commit_log (execute_task_by_id sample_lib failing_env ''t1'' sample_state))
        = [RUNNING, FAILED, PENDING]
   \<and> get_task (execute_task_by_id sample_lib failing_env ''t1'' sample_state) ''t1''
        = Some (recurring_task\<lparr>next_trigger_time := Some (midnight 29), status := PENDING\<rparr>)
   \<and> scheduler (execute_task_by_id sample_lib failing_env ''t1'' sample_state)
        = [recurring_job (midnight 29)]"
proof -
  have h: "get_task sample_state ''t1'' = Some recurring_task"
    "fireable (status recurring_task)"
    "task_info recurring_task = Some recurring_info"
    "base_reminder_content failing_env recurring_info = Inr (Plain ''drink water'')"
    "truthy (target_chat_id recurring_info) \<or> truthy (triggering_user_id recurring_info)"
    "webhook_channel recurring_info \<noteq> None \<or> email_channel recurring_info \<noteq> None"
    "\<not> send_result failing_env"
    "db_is_recurring recurring_task" "cron_config recurring_info = Some sample_cron"
    by (simp_all add: get_task_def fireable_def base_reminder_content_def truthy_def task_defs)
  have n: "get_next_cron_run_time sample_lib sample_cron (base_for_next_calc_local failing_env)
        (get_holiday_dates_for_year sample_state) default_max_attempts
        = Inr (Some (midnight 29), PENDING)"
    by (simp add: failing_env_def loop_defs cron_loop_unfold default_max_attempts_def
          sample_lib_simps sample_cron_def)
  from failed_send_keeps_recurrence [OF h n] h n
  show ?thesis
    by (simp add: add_or_update_job_in_scheduler_def add_job_def get_job_def
          recurring_task_def recurring_job_def sample_state_def)
qed

lemma remove_absent: "get_job jobs i = None \<Longrightarrow> remove_job_from_scheduler jobs i = jobs"
  by (simp add: remove_job_from_scheduler_def)

lemma remove_frame:
  "filter (\<lambda>j. job_id j \<noteq> i) (remove_job_from_scheduler jobs i) = filter (\<lambda>j. job_id j \<noteq> i) jobs"
  by (simp add: remove_job_from_scheduler_def remove_job_def split: option.splits)

lemma submit_removes: "get_job (scheduler (submit_date_job s i)) i = None"
proof (cases "get_job (scheduler s) i")
  case None
  then show ?thesis by (simp add: submit_date_job_def remove_job_def)
next
  case (Some j)
  have "find (\<lambda>j. job_id j = i) (filter (\<lambda>j. job_id j \<noteq> i) (scheduler s)) = None"
    by (induction "scheduler s") (auto simp: find_None_iff)
  with Some show ?thesis by (simp add: submit_date_job_def remove_job_def get_job_def)
qed

lemma skip_branch:
  assumes "get_task s i = Some task" and "\<not> fireable (status task)"
  shows "execute_task_by_id lib env i s = (if next_trigger_time task = None then disarm s i else s)"
  using assms by (simp add: execute_task_by_id_def)

lemma mark_completed_disarms: "get_job (scheduler (mark_completed i st)) i = None"
  if "get_job (scheduler st) i = None"
  using that by (simp add: mark_completed_def disarm_def get_job_removed split: option.splits)

text \<open>
  C8. A timer fires and the callback finds the task neither PENDING nor RUNNING, because
  another request changed the row in between; such a request arms no timer for the task.
  Then the callback does nothing: no send, no commit, no change to any row, and the state is
  the one it found, in which the task has no timer, the fired job having left the store when
  it came due. For the callback on any state: it removes the task's job itself only when the
  task has no next trigger time and otherwise leaves the scheduler as it is, and it never
  touches the rows, the logs or the jobs of other ids.
\<close>

theorem stale_timer_skipped:
  assumes "get_task (concurrent (submit_date_job s i)) i = Some task"
    and "\<not> fireable (status task)"
    and "\<forall>st. get_job (scheduler st) i = None \<longrightarrow> get_job (scheduler (concurrent st)) i = None"
  shows "timer_fire lib env i concurrent s = concurrent (submit_date_job s i)
     \<and> get_job (scheduler (timer_fire lib env i concurrent s)) i = None
     \<and> (\<forall>s1 task1. get_task s1 i = Some task1 \<and> \<not> fireable (status task1) \<longrightarrow>
          execute_task_by_id lib env i s1
            = (if next_trigger_time task1 = None then disarm s1 i else s1)
          \<and> reminder_tasks (execute_task_by_id lib env i s1) = reminder_tasks s1
          \<and> commit_log (execute_task_by_id lib env i s1) = commit_log s1
          \<and> sent (execute_task_by_id lib env i s1) = sent s1
          \<and> filter (\<lambda>j. job_id j \<noteq> i) (scheduler (execute_task_by_id lib env i s1))
              = filter (\<lambda>j. job_id j \<noteq> i) (scheduler s1)
          \<and> (next_trigger_time task1 = None \<longrightarrow>
                get_job (scheduler (execute_task_by_id lib env i s1)) i = None))"
proof -
  let ?s1 = "concurrent (submit_date_job s i)"
  have none: "get_job (scheduler ?s1) i = None"
    using assms(3) submit_removes [of s i] by blast
  then have "disarm ?s1 i = ?s1" by (simp add: disarm_def remove_absent)
  with assms(1,2) have a: "timer_fire lib env i concurrent s = ?s1"
    by (simp add: timer_fire_def skip_branch)
  have b: "execute_task_by_id lib env i s1
            = (if next_trigger_time task1 = None then disarm s1 i else s1)
          \<and> reminder_tasks (execute_task_by_id lib env i s1) = reminder_tasks s1
          \<and> commit_log (execute_task_by_id lib env i s1) = commit_log s1
          \<and> sent (execute_task_by_id lib env i s1) = sent s1
          \<and> filter (\<lambda>j. job_id j \<noteq> i) (scheduler (execute_task_by_id lib env i s1))
              = filter (\<lambda>j. job_id j \<noteq> i) (scheduler s1)
          \<and> (next_trigger_time task1 = None \<longrightarrow>
                get_job (scheduler (execute_task_by_id lib env i s1)) i = None)"
    if "get_task s1 i = Some task1" "\<not> fireable (status task1)" for s1 task1
    using that by (simp add: skip_branch disarm_def remove_frame get_job_removed)
  from a none have c: "get_job (scheduler (timer_fire lib env i concurrent s)) i = None"
    by simp
  from a c b show ?thesis by blast
qed

theorem stale_timer_skipped_witness:
  "get_task (mark_completed ''t1'' (submit_date_job armed_state ''t1'')) ''t1''
     = Some (recurring_task\<lparr>status := COMPLETED\<rparr>)
   \<and> \<not> fireable (status (recurring_task\<lparr>status := COMPLETED\<rparr>))
   \<and> get_job (scheduler armed_state) ''t1'' = Some (recurring_job (midnight 28))
   \<and> timer_fire sample_lib failing_env ''t1'' (mark_completed ''t1'') armed_state
       = \<lparr>reminder_tasks = [recurring_task\<lparr>status := COMPLETED\<rparr>, other_task],
          holiday_dates = [], scheduler = [other_job],
          commit_log = [recurring_task\<lparr>status := COMPLETED\<rparr>], sent = []\<rparr>"
proof -
  have s1: "mark_completed ''t1'' (submit_date_job armed_state ''t1'')
       = \<lparr>reminder_tasks = [recurring_task\<lparr>status := COMPLETED\<rparr>, other_task],
          holiday_dates = [], scheduler = [other_job],
          commit_log = [recurring_task\<lparr>status := COMPLETED\<rparr>], sent = []\<rparr>"
    by (simp add: mark_completed_def submit_date_job_def remove_job_def get_job_def get_task_def
          commit_def disarm_def remove_job_from_scheduler_def task_defs)
  have h: "get_task (mark_completed ''t1'' (submit_date_job armed_state ''t1'')) ''t1''
     = Some (recurring_task\<lparr>status := COMPLETED\<rparr>)"
    "\<not> fireable (status (recurring_task\<lparr>status := COMPLETED\<rparr>))"
    unfolding s1 by (simp_all add: get_task_def fireable_def task_defs)
  have c: "\<forall>st. get_job (scheduler st) ''t1'' = None \<longrightarrow>
             get_job (scheduler (mark_completed ''t1'' st)) ''t1'' = None"
    using mark_completed_disarms by blast
  have j: "get_job (scheduler armed_state) ''t1'' = Some (recurring_job (midnight 28))"
    by (simp add: get_job_def task_defs)
  from stale_timer_skipped [OF h c, of sample_lib failing_env] h j s1
  show ?thesis by simp
qed

end
